theory Spec2Isabelle
  imports Complex_Main "HOL-Library.Log_Nat" "HOL-Library.Product_Lexorder"
begin

section \<open>Python values\<close>

text \<open>
  The notebooks run on Python 3.8. Exceptions are values of the type \<open>error\<close>; a function
  that can raise returns \<open>error + 'a\<close>, with \<open>Inl\<close> for the exception.

  A sparsity level is a Python float, a double; a tensor entry is a torch float32. A
  finite float is modelled by the rational number it denotes, and an operation on floats
  by the exact operation followed by the rounding of its format (section "Floating
  point"). A level that is written as a decimal, such as 0.1, is the double next to it,
  \<open>fl64 (1 / 10)\<close>.
\<close>

datatype error = AttributeError | IndexError | OverflowError

definition py_get :: "'a list \<Rightarrow> int \<Rightarrow> error + 'a" where
  \<comment> \<open>\<open>xs[i]\<close>: an index from \<open>-len(xs)\<close> to \<open>-1\<close> counts from the end, an index out of
      range raises\<close>
  "py_get xs i =
     (if 0 \<le> i \<and> i < int (length xs) then Inr (xs ! nat i)
      else if i < 0 \<and> - int (length xs) \<le> i then Inr (xs ! nat (int (length xs) + i))
      else Inl IndexError)"

definition py_slice_to :: "'a list \<Rightarrow> int \<Rightarrow> 'a list" where
  \<comment> \<open>\<open>xs[:k]\<close>: a negative bound counts from the end, a bound out of range is clipped\<close>
  "py_slice_to xs k =
     (if 0 \<le> k then take (nat k) xs else take (length xs - nat (- k)) xs)"

definition py_round :: "rat \<Rightarrow> int" where
  \<comment> \<open>\<open>int(round(x))\<close>: Python 3 rounds a tie to the even neighbour\<close>
  "py_round x =
     (let f = \<lfloor>x\<rfloor>; r = x - of_int f
      in if r < 1 / 2 then f
         else if 1 / 2 < r then f + 1
         else if even f then f else f + 1)"

section \<open>Floating point\<close>

text \<open>
  IEEE 754 binary formats with precision \<open>p\<close> and least normal exponent \<open>emin\<close>: the double
  has \<open>p = 53\<close>, \<open>emin = -1022\<close> and largest exponent 1023, the float32 has \<open>p = 24\<close>,
  \<open>emin = -126\<close> and largest exponent 127. \<open>ilog2 x\<close> is the exponent \<open>e\<close> of a positive
  \<open>x\<close>, with \<open>2^e \<le> x < 2^(e+1)\<close>. \<open>round_to\<close> rounds an exact result to the nearest
  multiple of the format's spacing at that result, a tie to the even multiple; below the
  least normal exponent the spacing stays that of the subnormal numbers. A rounded result
  whose exponent exceeds the largest one is an overflow.
\<close>

definition pow2 :: "int \<Rightarrow> rat" where
  "pow2 e = (if 0 \<le> e then 2 ^ nat e else 1 / 2 ^ nat (- e))"

definition ilog2 :: "rat \<Rightarrow> int" where
  "ilog2 x = (if 1 \<le> x then bitlen \<lfloor>x\<rfloor> - 1 else - bitlen (\<lceil>1 / x\<rceil> - 1))"

definition round_to :: "nat \<Rightarrow> int \<Rightarrow> rat \<Rightarrow> rat" where
  "round_to p emin x =
     (if x = 0 then 0
      else let e = max (ilog2 \<bar>x\<bar>) emin; q = pow2 (e - int p + 1)
           in of_int (py_round (x / q)) * q)"

definition exceeds :: "int \<Rightarrow> rat \<Rightarrow> bool" where
  "exceeds emax x = (x \<noteq> 0 \<and> emax < ilog2 \<bar>x\<bar>)"

definition fl64 :: "rat \<Rightarrow> rat" where
  \<comment> \<open>the double next to \<open>x\<close>, before the check for overflow\<close>
  "fl64 x = round_to 53 (- 1022) x"

text \<open>
  A float32 value that a computation on finite entries can produce: a finite number, an
  infinity or not a number. The zero stands for both signed zeros, which compare equal.
\<close>

datatype f32 = Fin rat | PInf | MInf | NaN

definition fl32 :: "rat \<Rightarrow> f32" where
  "fl32 x =
     (let r = round_to 24 (- 126) x
      in if exceeds 127 r then (if 0 < r then PInf else MInf) else Fin r)"

fun f32_neg :: "f32 \<Rightarrow> f32" where
  "f32_neg (Fin a) = Fin (- a)"
| "f32_neg PInf = MInf"
| "f32_neg MInf = PInf"
| "f32_neg NaN = NaN"

fun f32_abs :: "f32 \<Rightarrow> f32" where
  "f32_abs (Fin a) = Fin \<bar>a\<bar>"
| "f32_abs PInf = PInf"
| "f32_abs MInf = PInf"
| "f32_abs NaN = NaN"

fun f32_add :: "f32 \<Rightarrow> f32 \<Rightarrow> f32" where
  "f32_add (Fin a) (Fin b) = fl32 (a + b)"
| "f32_add NaN y = NaN"
| "f32_add x NaN = NaN"
| "f32_add PInf MInf = NaN"
| "f32_add MInf PInf = NaN"
| "f32_add PInf y = PInf"
| "f32_add MInf y = MInf"
| "f32_add x PInf = PInf"
| "f32_add x MInf = MInf"

definition f32_sub :: "f32 \<Rightarrow> f32 \<Rightarrow> f32" where
  "f32_sub x y = f32_add x (f32_neg y)"

fun f32_div :: "f32 \<Rightarrow> f32 \<Rightarrow> f32" where
  "f32_div (Fin a) (Fin b) =
     (if b = 0 then (if a = 0 then NaN else if 0 < a then PInf else MInf)
      else fl32 (a / b))"
| "f32_div NaN y = NaN"
| "f32_div x NaN = NaN"
| "f32_div (Fin a) y = Fin 0"
| "f32_div PInf (Fin b) = (if 0 \<le> b then PInf else MInf)"
| "f32_div MInf (Fin b) = (if 0 \<le> b then MInf else PInf)"
| "f32_div x y = NaN"

text \<open>
  The order in which \<open>torch.sort\<close> arranges float32 values: ascending, with not a number
  after every number.
\<close>

fun f32_key :: "f32 \<Rightarrow> nat \<times> rat" where
  "f32_key MInf = (0, 0)"
| "f32_key (Fin a) = (1, a)"
| "f32_key PInf = (2, 0)"
| "f32_key NaN = (3, 0)"

definition f32_le :: "f32 \<Rightarrow> f32 \<Rightarrow> bool" where
  "f32_le x y = (f32_key x \<le> f32_key y)"

section \<open>Schedule functions\<close>

text \<open>
  \<open>stepping_lambda\<close> of the notebook "Sparsifying while Training":
  \<^verbatim>\<open>
  def stepping_lambda(epoch):
      steps = [0.0, 0.5, 0.75, 1.0]
      if epoch >= len(steps):
          return 1.0
      return steps[epoch]
  \<close>
\<close>

definition stepping_lambda :: "int \<Rightarrow> error + rat" where
  "stepping_lambda epoch =
     (let steps = [0, 1 / 2, 3 / 4, 1]
      in if epoch \<ge> int (length steps) then Inr 1 else py_get steps epoch)"

text \<open>
  \<open>OnOffSchedulerSL\<close> of the notebook "Customizing the Sparsity Workflow". The fields
  \<open>last_epoch\<close> and \<open>base_sl\<close> are those the scheduler base class keeps.
  \<^verbatim>\<open>
  def get_sl(self):
      if self.last_epoch < self.epoch_points[0]:
          return [0.0] * len(self.base_sl)
      elif self.epoch_points[0] <= self.last_epoch < self.epoch_points[1]:
          return self.base_sl
      elif self.epoch_points[1] <= self.last_epoch < self.epoch_points[2]:
          return [0.0] * len(self.base_sl)
      else:
          return self.base_sl
  \<close>
\<close>

record scheduler =
  epoch_points :: "int list"
  last_epoch :: int
  base_sl :: "rat list"

definition chained :: "int list \<Rightarrow> int \<Rightarrow> int \<Rightarrow> int \<Rightarrow> error + bool" where
  \<comment> \<open>\<open>eps[i] <= x < eps[j]\<close>: the second comparison, and its index access, are evaluated
      only when the first comparison holds\<close>
  "chained eps i x j =
     (case py_get eps i of
        Inl e \<Rightarrow> Inl e
      | Inr lo \<Rightarrow>
          if lo \<le> x
          then (case py_get eps j of Inl e \<Rightarrow> Inl e | Inr hi \<Rightarrow> Inr (x < hi))
          else Inr False)"

definition get_sl :: "scheduler \<Rightarrow> error + rat list" where
  "get_sl self =
     (case py_get (epoch_points self) 0 of
        Inl e \<Rightarrow> Inl e
      | Inr e0 \<Rightarrow>
          if last_epoch self < e0 then Inr (replicate (length (base_sl self)) 0)
          else
            (case chained (epoch_points self) 0 (last_epoch self) 1 of
               Inl e \<Rightarrow> Inl e
             | Inr b1 \<Rightarrow>
                 if b1 then Inr (base_sl self)
                 else
                   (case chained (epoch_points self) 1 (last_epoch self) 2 of
                      Inl e \<Rightarrow> Inl e
                    | Inr b2 \<Rightarrow>
                        if b2 then Inr (replicate (length (base_sl self)) 0)
                        else Inr (base_sl self))))"

section \<open>Tensors and linear layers\<close>

text \<open>
  A tensor is its shape and its entries in row-major order, which is what \<open>flatten\<close>
  returns; the entries are finite float32 numbers. A linear layer holds its stored weight parameter: for a plain layer this is
  \<open>layer.weight\<close>, for a parametrized layer it is
  \<open>layer.parametrizations.weight.original\<close>. The field \<open>parametrizations\<close> is \<open>None\<close>
  when the layer has no such attribute, and otherwise holds the mask of the one
  \<open>FakeSparsity\<close> parametrization, \<open>layer.parametrizations.weight[0].mask\<close>.
\<close>

record tensor =
  shape :: "nat list"
  data :: "rat list"

definition numel :: "tensor \<Rightarrow> nat" where
  "numel t = prod_list (shape t)"

definition ones_like :: "tensor \<Rightarrow> tensor" where
  "ones_like t = \<lparr>shape = shape t, data = replicate (numel t) 1\<rparr>"

definition flatten :: "tensor \<Rightarrow> rat list" where
  "flatten t = data t"

definition reshape :: "rat list \<Rightarrow> nat list \<Rightarrow> tensor" where
  "reshape xs s = \<lparr>shape = s, data = xs\<rparr>"

record layer =
  in_features :: nat
  out_features :: nat
  weight :: tensor
  bias :: "rat list"
  parametrizations :: "tensor option"

section \<open>ClosestToMeanSparsifier.update_mask\<close>

text \<open>
  \<^verbatim>\<open>
  def update_mask(self, layer, sparsity_level, **kwargs):
      mask = layer.parametrizations.weight[0].mask
      weight = layer.parametrizations.weight.original
      weight_flat = weight.flatten()
      weight_mean = weight_flat.mean()
      weight_distance_to_mean = (weight_flat - weight_mean).abs()
      _, sorted_idx = torch.sort(weight_distance_to_mean)
      threshold_idx = int(round(sparsity_level * len(sorted_idx)))
      sorted_idx = sorted_idx[:threshold_idx]
      new_mask = torch.ones_like(mask)
      new_mask = new_mask.flatten()
      new_mask[sorted_idx] = 0
      new_mask = new_mask.reshape(mask.shape)
      mask.data = new_mask
  \<close>
  The weight is a float32 tensor. \<open>weight_flat.mean()\<close> is computed by a kernel of torch,
  which is not in the repository: it returns the float32 sum of the entries divided by
  their number, and the order in which it adds the entries, on which the low bits of the
  sum depend, is its own. The kernel is therefore a parameter \<open>mean\<close> of the model, a
  function from the entries to a float32 value, and every theorem on \<open>update_mask\<close> holds
  for every such function. \<open>mean_seq\<close> is the kernel that adds from left to right; the
  examples below use it, on weights whose sum is the same in every order of adding.

  The difference of each entry and the mean is rounded to float32. \<open>torch.sort\<close> returns
  the indices in ascending order of the values; among equal values the model takes the
  lower index first. The product of the level and the length is a product of doubles,
  the length converted first; \<open>round\<close> of an infinite product raises \<open>OverflowError\<close>.
\<close>

definition mean_seq :: "rat list \<Rightarrow> f32" where
  "mean_seq xs = f32_div (foldl f32_add (Fin 0) (map Fin xs)) (fl32 (of_nat (length xs)))"

definition distance_to_mean :: "(rat list \<Rightarrow> f32) \<Rightarrow> rat list \<Rightarrow> f32 list" where
  "distance_to_mean mean xs = map (\<lambda>x. f32_abs (f32_sub (Fin x) (mean xs))) xs"

definition torch_sort_idx :: "f32 list \<Rightarrow> nat list" where
  "torch_sort_idx xs = sort_key (\<lambda>i. f32_key (xs ! i)) [0..<length xs]"

definition threshold_idx :: "rat \<Rightarrow> nat \<Rightarrow> error + int" where
  \<comment> \<open>\<open>int(round(sparsity_level * n))\<close>\<close>
  "threshold_idx sparsity_level n =
     (let x = fl64 (sparsity_level * fl64 (of_nat n))
      in if exceeds 1023 x then Inl OverflowError else Inr (py_round x))"

definition index_put_zero :: "rat list \<Rightarrow> nat list \<Rightarrow> error + rat list" where
  \<comment> \<open>\<open>t[idx] = 0\<close> for an index tensor: an index out of range raises\<close>
  "index_put_zero t idx =
     (if \<forall>i \<in> set idx. i < length t then Inr (fold (\<lambda>i m. m[i := 0]) idx t)
      else Inl IndexError)"

definition update_mask :: "(rat list \<Rightarrow> f32) \<Rightarrow> rat \<Rightarrow> layer \<Rightarrow> error + layer" where
  "update_mask mean sparsity_level l =
     (case parametrizations l of
        None \<Rightarrow> Inl AttributeError
      | Some msk \<Rightarrow>
          let weight_flat = flatten (weight l);
              weight_distance_to_mean = distance_to_mean mean weight_flat;
              sorted_idx = torch_sort_idx weight_distance_to_mean
          in case threshold_idx sparsity_level (length sorted_idx) of
               Inl e \<Rightarrow> Inl e
             | Inr threshold \<Rightarrow>
                 let sorted_idx = py_slice_to sorted_idx threshold;
                     new_mask = flatten (ones_like msk)
                 in case index_put_zero new_mask sorted_idx of
                      Inl e \<Rightarrow> Inl e
                    | Inr new_mask \<Rightarrow>
                        Inr (l\<lparr>parametrizations := Some (reshape new_mask (shape msk))\<rparr>))"

text \<open>
  Two names for what \<open>update_mask\<close> computes: the indices it sets to zero, and a tensor of
  ones with the entries at given indices set to zero.
\<close>

definition zeroed_idx :: "(rat list \<Rightarrow> f32) \<Rightarrow> rat \<Rightarrow> tensor \<Rightarrow> nat list" where
  "zeroed_idx mean s w =
     (case threshold_idx s (length (flatten w)) of
        Inl e \<Rightarrow> []
      | Inr threshold \<Rightarrow>
          py_slice_to (torch_sort_idx (distance_to_mean mean (flatten w))) threshold)"

definition zero_at :: "nat list \<Rightarrow> nat \<Rightarrow> rat list" where
  "zero_at idx n = map (\<lambda>j. if j \<in> set idx then 0 else 1) [0..<n]"

text \<open>
  The distance to the mean in exact arithmetic, which is what the words "absolute distance
  to the mean" denote; it is compared below with the distance the code computes.
\<close>

definition exact_mean :: "rat list \<Rightarrow> rat" where
  "exact_mean xs = sum_list xs / of_nat (length xs)"

definition exact_distance_to_mean :: "rat list \<Rightarrow> rat list" where
  "exact_distance_to_mean xs = map (\<lambda>x. \<bar>x - exact_mean xs\<bar>) xs"

text \<open>
  The invariant of a mask (spec, data model): a mask has the shape of the weight it
  parametrizes and every entry is 0 or 1. \<open>wf_tensor\<close> says that a tensor has as many
  entries as its shape spans.
\<close>

definition wf_tensor :: "tensor \<Rightarrow> bool" where
  "wf_tensor t = (length (data t) = numel t)"

definition binary_tensor :: "tensor \<Rightarrow> bool" where
  "binary_tensor t = (wf_tensor t \<and> list_all (\<lambda>x. x = 0 \<or> x = 1) (data t))"

definition masked :: "layer \<Rightarrow> bool" where
  \<comment> \<open>the layer is parametrized and its mask has the shape of its well-formed weight\<close>
  "masked l =
     (wf_tensor (weight l) \<and>
      (case parametrizations l of None \<Rightarrow> False | Some m \<Rightarrow> shape m = shape (weight l)))"

definition mask_invariant :: "layer \<Rightarrow> bool" where
  "mask_invariant l =
     (case parametrizations l of
        None \<Rightarrow> False
      | Some m \<Rightarrow> shape m = shape (weight l) \<and> binary_tensor m)"

text \<open>
  The notebooks measure the sparsity of a tensor as \<^verbatim>\<open>(t == 0).float().mean()\<close>: the
  fraction of its entries that are zero. \<open>sparsity_of\<close> is this fraction itself, which
  the notebooks print rounded to float32. For a tensor without entries torch returns not
  a number; the statements below that speak of a fraction are about tensors with entries.
\<close>

definition count_zero :: "rat list \<Rightarrow> nat" where
  "count_zero xs = length (filter (\<lambda>x. x = 0) xs)"

definition sparsity_of :: "tensor \<Rightarrow> rat" where
  "sparsity_of t = of_nat (count_zero (data t)) / of_nat (length (data t))"

section \<open>The sparsifier of the framework\<close>

text \<open>
  The notebooks build a model, construct a sparsifier, and call \<open>prepare\<close>, \<open>step\<close> and
  \<open>squash_mask\<close> on it. These three methods, the \<open>FakeSparsity\<close> parametrization and the
  layer classes belong to the framework (\<open>torch.ao.sparsity\<close>, \<open>torch.nn\<close>); the
  repository holds only the calls and the recorded cell outputs. The definitions of this
  section are therefore modelled from the spec and from what the notebooks say and print.

  Layers are objects: a model and a sparsity configuration refer to the same layer
  object. A store maps the address of a layer object to the layer's current state; the
  model is a tree of modules whose linear layers are addresses.
\<close>

type_synonym store = "nat \<Rightarrow> layer"

datatype nn_module =
    Linear nat
  | ReLU
  | QuantStub
  | DeQuantStub
  | Sequential "nn_module list"

fun named_linear :: "nn_module \<Rightarrow> nat list" where
  \<comment> \<open>\<^verbatim>\<open>[t for n, t in model.named_modules() if isinstance(t, nn.Linear)]\<close>\<close>
  "named_linear (Linear a) = [a]"
| "named_linear ReLU = []"
| "named_linear QuantStub = []"
| "named_linear DeQuantStub = []"
| "named_linear (Sequential ms) = concat (map named_linear ms)"

text \<open>
  Modelled from the spec: the \<open>FakeSparsity\<close> parametrization of the framework, which is
  not in the repository. "Mask: a same-shape-as-weight tensor of {0,1} applied
  multiplicatively to a layer's weight before use": reading \<open>layer.weight\<close> of a
  parametrized layer gives the elementwise product of the mask and the original weight.
\<close>

definition mul_mask :: "tensor \<Rightarrow> tensor \<Rightarrow> tensor" where
  "mul_mask m w = \<lparr>shape = shape w, data = map2 (*) (data m) (data w)\<rparr>"

text \<open>
  Modelled from the spec: reading \<open>layer.weight\<close>, which the framework's parametrization
  mechanism computes. A plain layer gives its stored weight, a parametrized layer the
  mask "applied multiplicatively" to the original weight.
\<close>

definition layer_weight :: "layer \<Rightarrow> tensor" where
  "layer_weight l =
     (case parametrizations l of None \<Rightarrow> weight l | Some m \<Rightarrow> mul_mask m (weight l))"

text \<open>
  A sparsity configuration (spec, data model) maps a target layer reference to a sparsity
  level, a block shape and a number of zeros per block. In the notebooks an entry of the
  list passed to \<open>prepare\<close> is either a dictionary with the key \<open>'module'\<close> and some of the
  other keys, or a bare layer ("The following layers will take default parameters").
  \<open>ClosestToMeanSparsifier.__init__\<close> passes the defaults
  \<^verbatim>\<open>{'sparsity_level': sparsity_level}\<close> to the base class.
\<close>

record args =
  sparsity_level :: rat
  sparse_block_shape :: "(nat \<times> nat) option"
  zeros_per_block :: "nat option"

record group = args +
  module :: nat

datatype config_entry =
    Module nat
  | Dict nat "rat option" "(nat \<times> nat) option" "nat option"

record sparsifier =
  defaults :: args
  module_groups :: "group list"

definition ClosestToMeanSparsifier :: "rat \<Rightarrow> sparsifier" where
  "ClosestToMeanSparsifier sl =
     \<lparr>defaults = \<lparr>sparsity_level = sl, sparse_block_shape = None, zeros_per_block = None\<rparr>,
      module_groups = []\<rparr>"

text \<open>
  Modelled from the spec: \<open>prepare(model, config)\<close> of the sparsifier base class, which is
  not in the repository. The configuration has "one entry per customized layer, plus a
  default group applied to any layer not explicitly listed"; the mask is "created on
  prepare", and "before the first step, masks are all-ones". The notebooks fix what the
  default group reaches: a layer listed bare takes the defaults, with \<open>config=None\<close>
  every linear layer of the model is attached with the defaults (notebook "Customizing
  the Sparsity Workflow"), and a linear layer that an explicit list leaves out is not
  attached at all (the recorded output of "Sparsifying while Training" shows
  69.64%, 90.04%, 79.98%, 0.00% for the four linear layers, the fourth being absent from
  the list). A sparsifier is prepared once, as in every notebook.
\<close>

fun make_group :: "args \<Rightarrow> config_entry \<Rightarrow> group" where
  "make_group d (Module a) =
     \<lparr>sparsity_level = sparsity_level d, sparse_block_shape = sparse_block_shape d,
      zeros_per_block = zeros_per_block d, module = a\<rparr>"
| "make_group d (Dict a sl bs zs) =
     \<lparr>sparsity_level = (case sl of None \<Rightarrow> sparsity_level d | Some x \<Rightarrow> x),
      sparse_block_shape = (case bs of None \<Rightarrow> sparse_block_shape d | Some x \<Rightarrow> Some x),
      zeros_per_block = (case zs of None \<Rightarrow> zeros_per_block d | Some x \<Rightarrow> Some x),
      module = a\<rparr>"

text \<open>
  Modelled from the spec: what \<open>prepare\<close> does to one layer, inside the framework. The
  mask is "created on prepare" and all-ones "before the first step"; it has the shape of
  the weight.
\<close>

definition prepare_layer :: "layer \<Rightarrow> layer" where
  "prepare_layer l = l\<lparr>parametrizations := Some (ones_like (weight l))\<rparr>"

text \<open>
  Modelled from the spec: the loop of \<open>prepare\<close> over the groups, inside the framework. The
  model is "mutated in place when sparsity is attached": the layer object at each
  group's address is replaced by the prepared one.
\<close>

definition attach :: "group list \<Rightarrow> store \<Rightarrow> store" where
  "attach gs st = fold (\<lambda>g s. s(module g := prepare_layer (s (module g)))) gs st"

text \<open>
  Modelled from the spec: \<open>prepare(model, config)\<close> itself, of the framework's sparsifier
  base class: one group for each entry of the configuration, or for each linear layer of
  the model when the configuration is \<open>None\<close>.
\<close>

definition prepare ::
  "sparsifier \<Rightarrow> nn_module \<Rightarrow> config_entry list option \<Rightarrow> store \<Rightarrow> sparsifier \<times> store" where
  "prepare self model config st =
     (let cfg = (case config of None \<Rightarrow> map Module (named_linear model) | Some c \<Rightarrow> c);
          gs = map (make_group (defaults self)) cfg
      in (self\<lparr>module_groups := gs\<rparr>, attach gs st))"

text \<open>
  Modelled from the spec: \<open>step()\<close> of the sparsifier base class, which is not in the
  repository. The mask is "updated on each step": the step calls \<open>update_mask\<close> on the
  layer of every group with the group's settings. The \<open>update_mask\<close> is the one of
  \<open>ClosestToMeanSparsifier\<close>, the only one the repository defines; \<open>mean\<close> is the mean kernel
  it calls.
\<close>

fun step_groups :: "(rat list \<Rightarrow> f32) \<Rightarrow> group list \<Rightarrow> store \<Rightarrow> error + store" where
  "step_groups mean [] st = Inr st"
| "step_groups mean (g # gs) st =
     (case update_mask mean (sparsity_level g) (st (module g)) of
        Inl e \<Rightarrow> Inl e
      | Inr l \<Rightarrow> step_groups mean gs (st(module g := l)))"

text \<open>
  Modelled from the spec: \<open>step()\<close> itself, of the framework's sparsifier base class, over
  the groups of the sparsifier.
\<close>

definition step :: "(rat list \<Rightarrow> f32) \<Rightarrow> sparsifier \<Rightarrow> store \<Rightarrow> error + store" where
  "step mean self st = step_groups mean (module_groups self) st"

text \<open>
  Modelled from the spec: \<open>squash_mask()\<close> of the sparsifier base class, which is not in
  the repository. "Mask squashing: the act of permanently multiplying a mask into its
  weight tensor and discarding the mask"; the mask is "deleted (squashed) by multiplying
  into the weight and removing the wrapper". The notebook "Sparsifying a Pre-Trained
  Model" says the same and prints \<open>has mask = False\<close> afterwards. The spec does not say
  what squashing a layer without a mask does; the model leaves such a layer as it is.
\<close>

definition squash_layer :: "layer \<Rightarrow> layer" where
  "squash_layer l =
     (case parametrizations l of
        None \<Rightarrow> l
      | Some m \<Rightarrow> l\<lparr>weight := mul_mask m (weight l), parametrizations := None\<rparr>)"

text \<open>
  Modelled from the spec: \<open>squash_mask()\<close> itself, of the framework's sparsifier base
  class: every group's layer is squashed in place.
\<close>

definition squash_mask :: "sparsifier \<Rightarrow> store \<Rightarrow> store" where
  "squash_mask self st =
     fold (\<lambda>g s. s(module g := squash_layer (s (module g)))) (module_groups self) st"

text \<open>
  The notebooks' flow: build the layers, prepare, step, squash, and print the sparsity of
  every linear layer of the model,
  \<^verbatim>\<open>[(t.weight == 0).float().mean() for n, t in model.named_modules()
     if isinstance(t, nn.Linear)]\<close>.
\<close>

definition sparsity_levels :: "nn_module \<Rightarrow> store \<Rightarrow> rat list" where
  "sparsity_levels model st = map (\<lambda>a. sparsity_of (layer_weight (st a))) (named_linear model)"

definition sparsify ::
  "(rat list \<Rightarrow> f32) \<Rightarrow> sparsifier \<Rightarrow> nn_module \<Rightarrow> config_entry list option \<Rightarrow> store
     \<Rightarrow> error + rat list" where
  "sparsify mean self model config st =
     (case prepare self model config st of
        (self', st1) \<Rightarrow>
          (case step mean self' st1 of
             Inl e \<Rightarrow> Inl e
           | Inr st2 \<Rightarrow> Inr (sparsity_levels model (squash_mask self' st2))))"

text \<open>The layers a configuration refers to.\<close>

fun entry_module :: "config_entry \<Rightarrow> nat" where
  "entry_module (Module a) = a"
| "entry_module (Dict a sl bs zs) = a"

definition configured :: "nn_module \<Rightarrow> config_entry list option \<Rightarrow> nat list" where
  "configured model config =
     (case config of None \<Rightarrow> named_linear model | Some c \<Rightarrow> map entry_module c)"

section \<open>Example inputs\<close>

text \<open>
  \<open>nn.Linear(in_features, out_features)\<close> with a given weight (of shape
  \<open>[out_features, in_features]\<close>) and bias. The examples are small versions of the
  notebooks' models: a single layer as in "Customizing the Sparsity Workflow", and four
  linear layers separated by activations as in "Sparsifying while Training", with a
  configuration that customizes the first two layers, lists the third bare and leaves
  the fourth out.
\<close>

definition nn_Linear :: "nat \<Rightarrow> nat \<Rightarrow> rat list \<Rightarrow> rat list \<Rightarrow> layer" where
  "nn_Linear i out w b =
     \<lparr>in_features = i, out_features = out, weight = \<lparr>shape = [out, i], data = w\<rparr>,
      bias = b, parametrizations = None\<rparr>"

definition example_store3 :: store where
  "example_store3 = (\<lambda>_. nn_Linear 3 1 [1, 2, 4] [0])"

definition example_store4 :: store where
  "example_store4 = (\<lambda>_. nn_Linear 2 2 [1, 2, 4, 8] [0, 0])"

definition example_model1 :: nn_module where
  "example_model1 = Sequential [Linear 0]"

definition example_model4 :: nn_module where
  "example_model4 = Sequential [Linear 0, ReLU, Linear 1, ReLU, Linear 2, ReLU, Linear 3]"

definition example_config :: "config_entry list" where
  "example_config =
     [Dict 0 (Some (1 / 4)) (Some (4, 1)) (Some 4),
      Dict 1 (Some (3 / 4)) (Some (1, 8)) (Some 8),
      Module 2]"

definition example_group :: group where
  "example_group =
     \<lparr>sparsity_level = 1 / 2, sparse_block_shape = None, zeros_per_block = None, module = 0\<rparr>"

definition example_scheduler :: scheduler where
  "example_scheduler = \<lparr>epoch_points = [3, 6, 9], last_epoch = 4, base_sl = [4 / 5]\<rparr>"

definition example_prepared3 :: layer where
  "example_prepared3 = prepare_layer (nn_Linear 3 1 [1, 2, 4] [0])"

definition example_masked3 :: layer where
  "example_masked3 =
     (nn_Linear 3 1 [1, 2, 4] [0])\<lparr>parametrizations := Some \<lparr>shape = [1, 3], data = [0, 0, 1]\<rparr>\<rparr>"

definition example_sparsifier :: sparsifier where
  "example_sparsifier = (ClosestToMeanSparsifier (1 / 2))\<lparr>module_groups := [example_group]\<rparr>"

definition example_tie3 :: layer where
  "example_tie3 = prepare_layer (nn_Linear 3 1 [0, 2, 1 + 1 / 2 ^ 23] [0])"

definition example_store_zero :: store where
  "example_store_zero = (\<lambda>_. nn_Linear 3 1 [0, 2, 4] [0])"

section \<open>Lemmas on the Python values, on rounding and on \<open>update_mask\<close>\<close>

lemma fold_put_zero:
  "\<forall>i \<in> set idx. i < length t \<Longrightarrow>
   fold (\<lambda>i m. m[i := 0]) idx t = map (\<lambda>j. if j \<in> set idx then 0 else t ! j) [0..<length t]"
proof (induction idx arbitrary: t)
  case Nil
  show ?case by (simp add: map_nth)
next
  case (Cons a idx)
  have "fold (\<lambda>i m. m[i := 0]) (a # idx) t = fold (\<lambda>i m. m[i := 0]) idx (t[a := 0])"
    by simp
  also have "\<dots> = map (\<lambda>j. if j \<in> set idx then 0 else t[a := 0] ! j) [0..<length t]"
    using Cons.IH [of "t[a := 0]"] Cons.prems by simp
  also have "\<dots> = map (\<lambda>j. if j \<in> set (a # idx) then 0 else t ! j) [0..<length t]"
    by (rule map_cong) (auto simp: nth_list_update)
  finally show ?case .
qed

lemma index_put_zero_ones:
  assumes "\<forall>i \<in> set idx. i < n"
  shows "index_put_zero (replicate n 1) idx = Inr (map (\<lambda>j. if j \<in> set idx then 0 else 1) [0..<n])"
proof -
  have "fold (\<lambda>i m. m[i := 0]) idx (replicate n (1::rat))
        = map (\<lambda>j. if j \<in> set idx then 0 else replicate n 1 ! j) [0..<n]"
    using fold_put_zero [of idx "replicate n 1"] assms by simp
  also have "\<dots> = map (\<lambda>j. if j \<in> set idx then 0 else 1) [0..<n]"
    by (rule map_cong) auto
  finally show ?thesis using assms by (simp add: index_put_zero_def)
qed

lemma set_torch_sort_idx: "set (torch_sort_idx xs) = {0..<length xs}"
  by (simp add: torch_sort_idx_def)

lemma length_torch_sort_idx: "length (torch_sort_idx xs) = length xs"
  by (simp add: torch_sort_idx_def)

lemma distinct_torch_sort_idx: "distinct (torch_sort_idx xs)"
  by (simp add: torch_sort_idx_def)

lemma sorted_torch_sort_idx: "sorted (map (\<lambda>i. f32_key (xs ! i)) (torch_sort_idx xs))"
  by (simp add: torch_sort_idx_def)

lemma py_slice_to_take: "\<exists>j. py_slice_to xs k = take j xs"
  by (auto simp: py_slice_to_def)

lemma py_slice_to_in_range:
  "0 \<le> k \<Longrightarrow> k \<le> int (length xs) \<Longrightarrow> py_slice_to xs k = take (nat k) xs \<and> length (py_slice_to xs k) = nat k"
  by (simp add: py_slice_to_def)

lemma py_round_nonneg: "0 \<le> x \<Longrightarrow> 0 \<le> py_round x"
  by (auto simp: py_round_def Let_def intro: add_nonneg_nonneg)

lemma py_round_le: "x \<le> of_int n \<Longrightarrow> py_round x \<le> n"
proof -
  assume a: "x \<le> of_int n"
  then have f: "\<lfloor>x\<rfloor> \<le> n" by (simp add: floor_le_iff)
  show ?thesis
  proof (cases "\<lfloor>x\<rfloor> = n")
    case True
    then have "x - of_int \<lfloor>x\<rfloor> \<le> 0" using a by simp
    then show ?thesis using True by (simp add: py_round_def Let_def)
  next
    case False
    then have "\<lfloor>x\<rfloor> + 1 \<le> n" using f by simp
    then show ?thesis by (auto simp: py_round_def Let_def)
  qed
qed

lemma py_round_of_int: "py_round (of_int k) = k"
  by (simp add: py_round_def)

lemma ilog2_less:
  assumes "0 < x" "x < 2 ^ k" "0 < k"
  shows "ilog2 x < int k"
proof (cases "1 \<le> x")
  case True
  have "x < of_int (2 ^ k)" using assms(2) by simp
  then have "\<lfloor>x\<rfloor> < 2 ^ k" by (simp only: floor_less_iff)
  then have "bitlen \<lfloor>x\<rfloor> \<le> int k" by (simp add: bitlen_le_iff_power)
  then show ?thesis using True by (simp add: ilog2_def)
next
  case False
  then show ?thesis
    using assms(3) bitlen_nonneg [of "\<lceil>1 / x\<rceil> - 1"] by (simp add: ilog2_def)
qed

lemma round_to_grid:
  assumes "0 < x" "x < 2 ^ p" "0 < p" "emin \<le> int p - 1"
  shows "\<exists>k. round_to p emin x = of_int (py_round (x * 2 ^ k)) / 2 ^ k"
proof -
  let ?j = "max (ilog2 \<bar>x\<bar>) emin - int p + 1"
  have "ilog2 \<bar>x\<bar> < int p" using ilog2_less [of x p] assms by simp
  then have j: "?j \<le> 0" using assms(4) by simp
  have "pow2 ?j = 1 / 2 ^ nat (- ?j)"
  proof (cases "?j = 0")
    case True
    then show ?thesis by (simp add: pow2_def)
  next
    case False
    then have "?j < 0" using j by simp
    then show ?thesis by (simp add: pow2_def)
  qed
  then have "round_to p emin x = of_int (py_round (x * 2 ^ nat (- ?j))) / 2 ^ nat (- ?j)"
    using assms(1) by (simp add: round_to_def Let_def)
  then show ?thesis by blast
qed

lemma round_to_bounds:
  assumes "0 \<le> x" "x \<le> of_int z" "z < 2 ^ p" "0 < p" "emin \<le> int p - 1"
  shows "0 \<le> round_to p emin x \<and> round_to p emin x \<le> of_int z"
proof (cases "x = 0")
  case True
  then show ?thesis using assms(1,2) by (simp add: round_to_def)
next
  case False
  then have pos: "0 < x" using assms(1) by simp
  have "of_int z < (2::rat) ^ p" using assms(3) by (metis of_int_less_iff of_int_numeral of_int_power)
  then have "x < 2 ^ p" by (rule le_less_trans [OF assms(2)])
  from round_to_grid [OF pos this assms(4,5)] obtain k where
    r: "round_to p emin x = of_int (py_round (x * 2 ^ k)) / 2 ^ k" by blast
  have "x * 2 ^ k \<le> of_int (z * 2 ^ k)" using assms(2) by simp
  then have up: "py_round (x * 2 ^ k) \<le> z * 2 ^ k" by (rule py_round_le)
  have "0 \<le> x * 2 ^ k" using assms(1) by simp
  then have lo: "0 \<le> py_round (x * 2 ^ k)" by (rule py_round_nonneg)
  have "(of_int (py_round (x * 2 ^ k)) :: rat) \<le> of_int (z * 2 ^ k)"
    using up by (simp only: of_int_le_iff)
  then have "(of_int (py_round (x * 2 ^ k)) :: rat) \<le> of_int z * 2 ^ k" by simp
  then have "(of_int (py_round (x * 2 ^ k)) :: rat) / 2 ^ k \<le> of_int z"
    by (simp add: pos_divide_le_eq)
  then have "round_to p emin x \<le> of_int z" by (simp only: r)
  moreover have "0 \<le> round_to p emin x" using lo by (simp add: r)
  ultimately show ?thesis by simp
qed

lemma round_to_of_int:
  assumes "0 \<le> z" "z < 2 ^ p" "0 < p" "emin \<le> int p - 1"
  shows "round_to p emin (of_int z) = of_int z"
proof (cases "z = 0")
  case True
  then show ?thesis by (simp add: round_to_def)
next
  case False
  then have pos: "(0::rat) < of_int z" using assms(1) by simp
  have lt: "of_int z < (2::rat) ^ p"
    using assms(2) by (metis of_int_less_iff of_int_numeral of_int_power)
  from round_to_grid [OF pos lt assms(3,4)] obtain k where
    r: "round_to p emin (of_int z) = of_int (py_round (of_int z * 2 ^ k)) / 2 ^ k" by blast
  have "(of_int z :: rat) * 2 ^ k = of_int (z * 2 ^ k)" by simp
  then have "py_round (of_int z * 2 ^ k) = z * 2 ^ k" by (simp only: py_round_of_int)
  then show ?thesis by (simp add: r)
qed

lemma fl64_of_nat: "n < 2 ^ 53 \<Longrightarrow> fl64 (of_nat n) = of_nat n"
  using round_to_of_int [of "int n" 53 "- 1022"] by (simp add: fl64_def)

lemma fl64_bounds:
  assumes "0 \<le> x" "x \<le> of_nat n" "n < 2 ^ 53"
  shows "0 \<le> fl64 x \<and> fl64 x \<le> of_nat n"
  using round_to_bounds [of x "int n" 53 "- 1022"] assms by (simp add: fl64_def)

lemma not_exceeds:
  assumes "0 \<le> x" "x \<le> of_nat n" "n < 2 ^ 53"
  shows "\<not> exceeds 1023 x"
proof (cases "x = 0")
  case True
  then show ?thesis by (simp add: exceeds_def)
next
  case False
  then have "0 < x" using assms(1) by simp
  moreover have "x < 2 ^ 53"
  proof -
    have "(of_nat n :: rat) < 2 ^ 53" using assms(3) by (metis of_nat_less_iff of_nat_numeral of_nat_power)
    then show ?thesis by (rule le_less_trans [OF assms(2)])
  qed
  ultimately have "ilog2 x < 53" using ilog2_less [of x 53] by simp
  then show ?thesis using \<open>0 < x\<close> by (simp add: exceeds_def)
qed

text \<open>
  The level is a double and so is the product: \<open>0.1 * 5\<close> is exactly one half, which
  \<open>round\<close> takes to the even integer 0, and \<open>0.7 * 45\<close> is the double just below 31.5.
\<close>

lemma threshold_idx_tenth: "threshold_idx (fl64 (1 / 10)) 5 = Inr 0"
  by code_simp

lemma threshold_idx_seven_tenths: "threshold_idx (fl64 (7 / 10)) 45 = Inr 31"
  by code_simp

lemma threshold_idx_level:
  assumes "0 \<le> s" "s \<le> 1" "n < 2 ^ 53"
  shows "threshold_idx s n = Inr (py_round (fl64 (s * of_nat n)))"
    and "0 \<le> py_round (fl64 (s * of_nat n))"
    and "py_round (fl64 (s * of_nat n)) \<le> int n"
proof -
  have x: "0 \<le> s * of_nat n" "s * of_nat n \<le> of_nat n"
    using assms(1,2) mult_right_mono [of s 1 "of_nat n"] by simp_all
  have b: "0 \<le> fl64 (s * of_nat n)" "fl64 (s * of_nat n) \<le> of_nat n"
    using fl64_bounds [OF x assms(3)] by simp_all
  show "threshold_idx s n = Inr (py_round (fl64 (s * of_nat n)))"
    using not_exceeds [OF b assms(3)] by (simp add: threshold_idx_def fl64_of_nat [OF assms(3)])
  show "0 \<le> py_round (fl64 (s * of_nat n))" using b(1) by (rule py_round_nonneg)
  have "fl64 (s * of_nat n) \<le> of_int (int n)" using b(2) by simp
  then show "py_round (fl64 (s * of_nat n)) \<le> int n" by (rule py_round_le)
qed


lemma length_distance_to_mean: "length (distance_to_mean mean xs) = length xs"
  by (simp add: distance_to_mean_def)

lemma index_put_zero_ones_eq:
  "index_put_zero (replicate n 1) idx =
     (if \<forall>i \<in> set idx. i < n then Inr (zero_at idx n) else Inl IndexError)"
proof (cases "\<forall>i \<in> set idx. i < n")
  case True
  then show ?thesis using index_put_zero_ones [OF True] by (simp add: zero_at_def)
next
  case False
  then have "index_put_zero (replicate n 1) idx = Inl IndexError"
    unfolding index_put_zero_def by simp
  then show ?thesis using False by simp
qed

lemma update_mask_eq:
  assumes "parametrizations l = Some m"
  shows "update_mask mean s l =
     (case threshold_idx s (length (data (weight l))) of
        Inl e \<Rightarrow> Inl e
      | Inr t \<Rightarrow>
          if \<forall>i \<in> set (zeroed_idx mean s (weight l)). i < numel m
          then Inr (l\<lparr>parametrizations :=
                 Some \<lparr>shape = shape m, data = zero_at (zeroed_idx mean s (weight l)) (numel m)\<rparr>\<rparr>)
          else Inl IndexError)"
proof (cases "threshold_idx s (length (data (weight l)))")
  case (Inl e)
  then show ?thesis
    using assms
    by (simp add: update_mask_def Let_def flatten_def length_torch_sort_idx
        length_distance_to_mean)
next
  case (Inr t)
  then have "update_mask mean s l =
      (case index_put_zero (replicate (numel m) 1) (zeroed_idx mean s (weight l)) of
         Inl e \<Rightarrow> Inl e
       | Inr new_mask \<Rightarrow> Inr (l\<lparr>parametrizations := Some (reshape new_mask (shape m))\<rparr>))"
    using assms
    by (simp add: update_mask_def Let_def zeroed_idx_def ones_like_def flatten_def
        length_torch_sort_idx length_distance_to_mean)
  then show ?thesis
    using Inr by (simp add: index_put_zero_ones_eq reshape_def)
qed

lemma zeroed_idx_take: "\<exists>j. zeroed_idx mean s w = take j (torch_sort_idx (distance_to_mean mean (flatten w)))"
proof (cases "threshold_idx s (length (flatten w))")
  case (Inl e)
  then have "zeroed_idx mean s w = take 0 (torch_sort_idx (distance_to_mean mean (flatten w)))"
    by (simp add: zeroed_idx_def)
  then show ?thesis by blast
next
  case (Inr t)
  then show ?thesis using py_slice_to_take by (simp add: zeroed_idx_def)
qed

lemma set_zeroed_idx: "set (zeroed_idx mean s w) \<subseteq> {0..<length (data w)}"
proof -
  obtain j where "zeroed_idx mean s w = take j (torch_sort_idx (distance_to_mean mean (flatten w)))"
    using zeroed_idx_take by blast
  then have "set (zeroed_idx mean s w) \<subseteq> set (torch_sort_idx (distance_to_mean mean (flatten w)))"
    by (simp add: set_take_subset)
  then show ?thesis
    by (simp add: set_torch_sort_idx length_distance_to_mean flatten_def)
qed

lemma distinct_zeroed_idx: "distinct (zeroed_idx mean s w)"
proof -
  obtain j where "zeroed_idx mean s w = take j (torch_sort_idx (distance_to_mean mean (flatten w)))"
    using zeroed_idx_take by blast
  then show ?thesis by (simp add: distinct_torch_sort_idx)
qed

lemma masked_numel:
  assumes "masked l"
  obtains m where "parametrizations l = Some m" "shape m = shape (weight l)"
    "numel m = length (data (weight l))"
  using assms by (auto simp: masked_def wf_tensor_def numel_def split: option.splits)

lemma update_mask_masked:
  assumes "masked l" "threshold_idx s (length (data (weight l))) = Inr t"
  shows "update_mask mean s l =
     Inr (l\<lparr>parametrizations := Some \<lparr>shape = shape (weight l),
        data = zero_at (zeroed_idx mean s (weight l)) (length (data (weight l)))\<rparr>\<rparr>)"
proof -
  from assms(1) obtain m where m: "parametrizations l = Some m" "shape m = shape (weight l)"
    "numel m = length (data (weight l))" by (rule masked_numel)
  have "\<forall>i \<in> set (zeroed_idx mean s (weight l)). i < numel m"
    using set_zeroed_idx [of mean s "weight l"] m(3) by auto
  then show ?thesis using update_mask_eq [OF m(1), of mean s] m assms(2) by simp
qed

lemma update_mask_overflow:
  assumes "masked l" "threshold_idx s (length (data (weight l))) = Inl e"
  shows "update_mask mean s l = Inl e"
proof -
  from assms(1) obtain m where m: "parametrizations l = Some m" by (rule masked_numel)
  show ?thesis using update_mask_eq [OF m, of mean s] assms(2) by simp
qed

lemma update_mask_level:
  assumes "masked l" "0 \<le> s" "s \<le> 1" "length (data (weight l)) < 2 ^ 53"
  shows "update_mask mean s l =
     Inr (l\<lparr>parametrizations := Some \<lparr>shape = shape (weight l),
        data = zero_at (zeroed_idx mean s (weight l)) (length (data (weight l)))\<rparr>\<rparr>)"
  using update_mask_masked [OF assms(1) threshold_idx_level(1) [OF assms(2,3,4)]] .

lemma zero_at_binary: "list_all (\<lambda>x. x = 0 \<or> x = 1) (zero_at idx n)"
  by (auto simp: zero_at_def list_all_iff)

lemma length_zero_at: "length (zero_at idx n) = n"
  by (simp add: zero_at_def)

lemma zero_at_nth: "j < n \<Longrightarrow> zero_at idx n ! j = (if j \<in> set idx then 0 else 1)"
  by (simp add: zero_at_def)

lemma update_mask_again:
  assumes "update_mask mean s l = Inr l'"
  shows "update_mask mean s l' = Inr l'"
proof -
  from assms obtain m where m: "parametrizations l = Some m"
    by (auto simp: update_mask_def split: option.splits)
  from assms update_mask_eq [OF m, of mean s]
  obtain t where t: "threshold_idx s (length (data (weight l))) = Inr t"
    by (cases "threshold_idx s (length (data (weight l)))") auto
  from assms update_mask_eq [OF m, of mean s] t
  have r: "\<forall>i \<in> set (zeroed_idx mean s (weight l)). i < numel m"
    and l': "l' = l\<lparr>parametrizations := Some \<lparr>shape = shape m, data = zero_at (zeroed_idx mean s (weight l)) (numel m)\<rparr>\<rparr>"
    by (auto split: if_splits)
  let ?m' = "\<lparr>shape = shape m, data = zero_at (zeroed_idx mean s (weight l)) (numel m)\<rparr>"
  have p: "parametrizations l' = Some ?m'" and w: "weight l' = weight l" using l' by simp_all
  have n: "numel ?m' = numel m" by (simp add: numel_def)
  show ?thesis using update_mask_eq [OF p, of mean s] r t by (simp add: w n l')
qed

lemma zeroed_idx_level:
  assumes "0 \<le> s" "s \<le> 1" "length (data w) < 2 ^ 53"
  shows "zeroed_idx mean s w = take (nat (py_round (fl64 (s * of_nat (length (data w))))))
            (torch_sort_idx (distance_to_mean mean (data w)))"
    and "int (length (zeroed_idx mean s w)) = py_round (fl64 (s * of_nat (length (data w))))"
proof -
  let ?n = "length (data w)"
  let ?k = "py_round (fl64 (s * of_nat ?n))"
  have t: "threshold_idx s ?n = Inr ?k" and k: "0 \<le> ?k" "?k \<le> int ?n"
    using threshold_idx_level [OF assms] by simp_all
  have len: "length (torch_sort_idx (distance_to_mean mean (data w))) = ?n"
    by (simp add: length_torch_sort_idx length_distance_to_mean)
  show "zeroed_idx mean s w = take (nat ?k) (torch_sort_idx (distance_to_mean mean (data w)))"
    using k t by (simp add: zeroed_idx_def flatten_def py_slice_to_def)
  then show "int (length (zeroed_idx mean s w)) = ?k"
    using k len by simp
qed

lemma zeroed_idx_closest:
  assumes "i \<in> set (zeroed_idx mean s w)" "j < length (data w)" "j \<notin> set (zeroed_idx mean s w)"
  shows "f32_le (distance_to_mean mean (data w) ! i) (distance_to_mean mean (data w) ! j)"
proof -
  let ?d = "distance_to_mean mean (data w)"
  let ?srt = "torch_sort_idx ?d"
  obtain k where z: "zeroed_idx mean s w = take k ?srt"
    using zeroed_idx_take [of mean s w] by (auto simp: flatten_def)
  have "j \<in> set ?srt" using assms(2) by (simp add: set_torch_sort_idx length_distance_to_mean)
  then have "j \<in> set (take k ?srt) \<union> set (drop k ?srt)"
    by (simp only: set_append [symmetric] append_take_drop_id)
  then have j: "j \<in> set (drop k ?srt)" using assms(3) z by simp
  have i: "i \<in> set (take k ?srt)" using assms(1) z by simp
  have "sorted (map (\<lambda>i. f32_key (?d ! i)) (take k ?srt @ drop k ?srt))"
    using sorted_torch_sort_idx [of ?d] by simp
  then have "\<forall>x \<in> set (take k ?srt). \<forall>y \<in> set (drop k ?srt). f32_key (?d ! x) \<le> f32_key (?d ! y)"
    by (simp only: map_append sorted_append) auto
  then show ?thesis using i j by (simp add: f32_le_def)
qed

lemma filter_zero_at:
  assumes "set idx \<subseteq> {0..<n}" "distinct idx"
  shows "set (filter (\<lambda>i. zero_at idx n ! i = 0) [0..<n]) = set idx"
    and "length (filter (\<lambda>i. zero_at idx n ! i = 0) [0..<n]) = length idx"
proof -
  let ?zs = "filter (\<lambda>i. zero_at idx n ! i = 0) [0..<n]"
  show s: "set ?zs = set idx" using assms(1) by (auto simp: zero_at_nth split: if_splits)
  have "distinct ?zs" by simp
  then have "card (set ?zs) = length ?zs" by (rule distinct_card)
  then have "length ?zs = card (set ?zs)" by (rule sym)
  also have "\<dots> = card (set idx)" by (simp only: s)
  also have "\<dots> = length idx" using assms(2) by (rule distinct_card)
  finally show "length ?zs = length idx" .
qed

lemma count_zero_zero_at:
  assumes "set idx \<subseteq> {0..<n}" "distinct idx"
  shows "count_zero (zero_at idx n) = length idx"
proof -
  have "filter (\<lambda>x. x = 0) (zero_at idx n)
        = map (\<lambda>j. if j \<in> set idx then 0 else 1) (filter (\<lambda>j. j \<in> set idx) [0..<n])"
    by (simp add: zero_at_def filter_map comp_def)
  then have "count_zero (zero_at idx n) = length (filter (\<lambda>j. j \<in> set idx) [0..<n])"
    by (simp add: count_zero_def)
  also have "filter (\<lambda>j. j \<in> set idx) [0..<n] = filter (\<lambda>i. zero_at idx n ! i = 0) [0..<n]"
    by (rule filter_cong) (auto simp: zero_at_nth split: if_splits)
  finally show ?thesis using filter_zero_at(2) [OF assms] by simp
qed

lemma module_make_group: "module (make_group d e) = entry_module e"
  by (cases e) simp_all

lemma prepare_layer_twice: "prepare_layer (prepare_layer l) = prepare_layer l"
  by (simp add: prepare_layer_def)

lemma fold_update_at:
  assumes "\<And>x. h (h x) = h x"
  shows "fold (\<lambda>g s. s(k g := h (s (k g)))) gs st a =
     (if a \<in> k ` set gs then h (st a) else st a)"
proof (induction gs arbitrary: st)
  case Nil
  show ?case by simp
next
  case (Cons g gs)
  let ?F = "\<lambda>g s. s(k g := h (s (k g)))"
  have "fold ?F (g # gs) st a = fold ?F gs (?F g st) a"
    by (simp only: fold_simps)
  also have "\<dots> = (if a \<in> k ` set gs then h ((?F g st) a) else (?F g st) a)"
    by (rule Cons.IH)
  also have "\<dots> = (if a \<in> k ` set (g # gs) then h (st a) else st a)"
    using assms by simp
  finally show ?case .
qed

lemma attach_at:
  "attach gs st a = (if a \<in> module ` set gs then prepare_layer (st a) else st a)"
  unfolding attach_def by (rule fold_update_at) (rule prepare_layer_twice)

lemma squash_layer_twice: "squash_layer (squash_layer l) = squash_layer l"
  by (simp add: squash_layer_def split: option.splits)

lemma squash_mask_at:
  "squash_mask self st a =
     (if a \<in> module ` set (module_groups self) then squash_layer (st a) else st a)"
  unfolding squash_mask_def by (rule fold_update_at) (rule squash_layer_twice)

lemma prepare_groups:
  assumes "prepare self model config st = (self', st')"
  shows "map module (module_groups self') = configured model config"
    and "st' = attach (module_groups self') st"
    and "defaults self' = defaults self"
  using assms
  by (auto simp: prepare_def configured_def Let_def module_make_group comp_def
      split: option.splits)

lemma map2_ones: "length xs = n \<Longrightarrow> map2 (*) (replicate n (1::rat)) xs = xs"
proof (induction xs arbitrary: n)
  case Nil
  then show ?case by simp
next
  case (Cons x xs)
  then obtain k where "n = Suc k" "length xs = k" by (cases n) auto
  then show ?case using Cons.IH [of k] by simp
qed

lemma layer_weight_prepare_layer:
  "wf_tensor (weight l) \<Longrightarrow> layer_weight (prepare_layer l) = weight l"
  by (simp add: layer_weight_def prepare_layer_def mul_mask_def ones_like_def wf_tensor_def
      map2_ones)

lemma masked_prepare_layer: "wf_tensor (weight l) \<Longrightarrow> masked (prepare_layer l)"
  by (simp add: masked_def prepare_layer_def ones_like_def)

lemma mask_invariant_prepare_layer: "mask_invariant (prepare_layer l)"
  by (simp add: mask_invariant_def prepare_layer_def ones_like_def binary_tensor_def
      wf_tensor_def numel_def list_all_iff)

lemma sparsity_of_dense: "0 \<notin> set (data t) \<Longrightarrow> sparsity_of t = 0"
proof -
  assume "0 \<notin> set (data t)"
  then have "filter (\<lambda>x. x = 0) (data t) = []" by (auto simp: filter_empty_conv)
  then show ?thesis by (simp add: sparsity_of_def count_zero_def)
qed

lemma step_groups_masked:
  assumes "distinct (map module gs)"
    and "\<forall>g \<in> set gs. masked (st (module g)) \<and> 0 \<le> sparsity_level g \<and> sparsity_level g \<le> 1
           \<and> length (data (weight (st (module g)))) < 2 ^ 53"
  shows "\<exists>st'. step_groups mean gs st = Inr st'
           \<and> (\<forall>g \<in> set gs. update_mask mean (sparsity_level g) (st (module g)) = Inr (st' (module g)))
           \<and> (\<forall>a. a \<notin> module ` set gs \<longrightarrow> st' a = st a)"
  using assms
proof (induction gs arbitrary: st)
  case Nil
  show ?case by simp
next
  case (Cons g gs)
  let ?l1 = "(st (module g))\<lparr>parametrizations := Some \<lparr>shape = shape (weight (st (module g))),
        data = zero_at (zeroed_idx mean (sparsity_level g) (weight (st (module g))))
                 (length (data (weight (st (module g)))))\<rparr>\<rparr>"
  let ?st1 = "st(module g := ?l1)"
  have mg: "masked (st (module g))" "0 \<le> sparsity_level g" "sparsity_level g \<le> 1"
    "length (data (weight (st (module g)))) < 2 ^ 53"
    using Cons.prems(2) by simp_all
  have u: "update_mask mean (sparsity_level g) (st (module g)) = Inr ?l1"
    by (rule update_mask_level [OF mg])
  have fresh: "module g \<notin> module ` set gs" using Cons.prems(1) by simp
  have ne: "module g' \<noteq> module g" if "g' \<in> set gs" for g'
    using fresh that by (metis imageI)
  have same: "\<forall>g' \<in> set gs. ?st1 (module g') = st (module g')"
    using ne by simp
  have "distinct (map module gs)" using Cons.prems(1) by simp
  moreover have "\<forall>g' \<in> set gs. masked (?st1 (module g')) \<and> 0 \<le> sparsity_level g'
      \<and> sparsity_level g' \<le> 1 \<and> length (data (weight (?st1 (module g')))) < 2 ^ 53"
    using Cons.prems(2) same by simp
  ultimately obtain st' where st':
    "step_groups mean gs ?st1 = Inr st'"
    "\<forall>g' \<in> set gs. update_mask mean (sparsity_level g') (?st1 (module g')) = Inr (st' (module g'))"
    "\<forall>a. a \<notin> module ` set gs \<longrightarrow> st' a = ?st1 a"
    using Cons.IH [of ?st1] by blast
  have 1: "step_groups mean (g # gs) st = Inr st'" using u st'(1) by simp
  have 2: "update_mask mean (sparsity_level g) (st (module g)) = Inr (st' (module g))"
    using u st'(3) fresh by simp
  have 3: "\<forall>g' \<in> set gs. update_mask mean (sparsity_level g') (st (module g')) = Inr (st' (module g'))"
    using st'(2) same by simp
  have 4: "\<forall>a. a \<notin> module ` set (g # gs) \<longrightarrow> st' a = st a"
    using st'(3) by simp
  show ?case using 1 2 3 4 by auto
qed

lemma step_groups_frame:
  "step_groups mean gs st = Inr st' \<Longrightarrow> a \<notin> module ` set gs \<Longrightarrow> st' a = st a"
proof (induction gs arbitrary: st)
  case Nil
  then show ?case by simp
next
  case (Cons g gs)
  from Cons.prems(1) obtain l where l: "update_mask mean (sparsity_level g) (st (module g)) = Inr l"
    and r: "step_groups mean gs (st(module g := l)) = Inr st'"
    by (auto split: sum.splits)
  have "st' a = (st(module g := l)) a" using Cons.IH [OF r] Cons.prems(2) by simp
  then show ?case using Cons.prems(2) by simp
qed


lemma count_zero_map2_eq:
  "length ms = length ws \<Longrightarrow> 0 \<notin> set ws \<Longrightarrow> count_zero (map2 (*) ms ws) = count_zero ms"
  by (induction ms ws rule: list_induct2) (simp_all add: count_zero_def)

lemma py_round_exact:
  assumes "of_int \<lfloor>x\<rfloor> = x"
  shows "of_int (py_round x) = x"
proof -
  have r: "x - of_int \<lfloor>x\<rfloor> = 0" by (simp only: assms diff_self)
  have "py_round x = \<lfloor>x\<rfloor>" unfolding py_round_def Let_def r by simp
  then show ?thesis by (simp only: assms)
qed

lemma py_get_nat: "i < length xs \<Longrightarrow> py_get xs (int i) = Inr (xs ! i)"
  by (simp add: py_get_def)

lemma py_get_0: "0 < length xs \<Longrightarrow> py_get xs 0 = Inr (xs ! 0)"
  using py_get_nat [of 0 xs] by simp
lemma py_get_1: "1 < length xs \<Longrightarrow> py_get xs 1 = Inr (xs ! 1)"
  using py_get_nat [of 1 xs] by simp
lemma py_get_2: "2 < length xs \<Longrightarrow> py_get xs 2 = Inr (xs ! 2)"
  using py_get_nat [of 2 xs] by simp

lemma stepping_lambda_cases:
  "0 \<le> epoch \<Longrightarrow> stepping_lambda epoch =
     Inr (if epoch = 0 then 0 else if epoch = 1 then 1 / 2 else if epoch = 2 then 3 / 4 else 1)"
proof -
  assume "0 \<le> epoch"
  then consider "epoch = 0" | "epoch = 1" | "epoch = 2" | "epoch = 3" | "4 \<le> epoch" by linarith
  then show ?thesis
    by cases (simp_all add: stepping_lambda_def py_get_def)
qed

section \<open>Claims\<close>




text \<open>
  C2, as stated: every linear layer that the configuration passed to \<open>prepare\<close> does not
  list gets the default group and reaches the default sparsity level after a step. In the
  example the configuration lists three of the four linear layers and the default level
  is 1/2; the fourth layer stays dense, as in the notebooks' recorded outputs.
\<close>

theorem unlisted_layer_counterexample:
  "sparsity_level (defaults (ClosestToMeanSparsifier (1 / 2))) = 1 / 2
   \<and> named_linear example_model4 = [0, 1, 2, 3]
   \<and> configured example_model4 (Some example_config) = [0, 1, 2]
   \<and> sparsify mean_seq (ClosestToMeanSparsifier (1 / 2)) example_model4 (Some example_config)
         example_store4 = Inr [1 / 4, 3 / 4, 1 / 2, 0]"
  by code_simp

text \<open>
  C2, amended: for every linear layer that the configuration passed to \<open>prepare\<close> lists
  without settings of its own, the sparsifier applies the default configuration group
  (default sparsity level, block shape and zeros per block), so after a step of a
  \<open>ClosestToMeanSparsifier\<close> such a layer's mask is the one \<open>update_mask\<close> computes at the
  default level \<open>s\<close>: it has \<open>int(round(s * n))\<close> zeros, and so has the layer's weight when
  the original weight has no zero entry. A linear layer that the configuration leaves out
  is not attached: \<open>prepare\<close>, the step and \<open>squash_mask\<close> leave it as it is. This holds when
  every layer is listed once, with a well-formed weight of fewer than \<open>2^53\<close> entries, and
  every level is in [0,1], whatever the mean kernel returns.
\<close>

theorem default_group_reach:
  assumes "prepare self model (Some c) st = (self', st')"
    and "distinct (map entry_module c)"
    and "\<forall>e \<in> set c. wf_tensor (weight (st (entry_module e)))
           \<and> numel (weight (st (entry_module e))) < 2 ^ 53"
    and "\<forall>g \<in> set (module_groups self'). 0 \<le> sparsity_level g \<and> sparsity_level g \<le> 1"
  shows "\<exists>st''. step mean self' st' = Inr st'' \<and>
     (\<forall>a. Module a \<in> set c \<longrightarrow>
        (let s = sparsity_level (defaults self);
             n = numel (weight (st a));
             k = py_round (fl64 (s * of_nat n))
         in (\<exists>g \<in> set (module_groups self'). module g = a
               \<and> sparsity_level g = s
               \<and> sparse_block_shape g = sparse_block_shape (defaults self)
               \<and> zeros_per_block g = zeros_per_block (defaults self))
            \<and> update_mask mean s (st' a) = Inr (st'' a)
            \<and> threshold_idx s n = Inr k
            \<and> (\<exists>m. parametrizations (st'' a) = Some m \<and> int (count_zero (data m)) = k)
            \<and> (0 \<notin> set (data (weight (st a))) \<longrightarrow>
                  int (count_zero (data (layer_weight (st'' a)))) = k)))
     \<and> (\<forall>a. a \<notin> entry_module ` set c \<longrightarrow>
           st' a = st a \<and> st'' a = st a \<and> squash_mask self' st'' a = st a)"
proof -
  let ?gs = "module_groups self'"
  have gs: "?gs = map (make_group (defaults self)) c"
    using assms(1) by (auto simp: prepare_def Let_def)
  have mods: "map module ?gs = map entry_module c"
    by (simp add: gs module_make_group comp_def)
  have img: "module ` set ?gs = entry_module ` set c"
    using mods by (metis set_map)
  have st': "st' a = (if a \<in> entry_module ` set c then prepare_layer (st a) else st a)" for a
    using prepare_groups(2) [OF assms(1)] img by (simp add: attach_at)
  have d: "distinct (map module ?gs)" using assms(2) by (simp only: mods)
  have pre: "masked (st' (module g)) \<and> 0 \<le> sparsity_level g \<and> sparsity_level g \<le> 1
      \<and> length (data (weight (st' (module g)))) < 2 ^ 53" if "g \<in> set ?gs" for g
  proof -
    have "module g \<in> entry_module ` set c" using that img by blast
    then obtain e where e: "e \<in> set c" "module g = entry_module e" by blast
    have wf: "wf_tensor (weight (st (module g)))" "numel (weight (st (module g))) < 2 ^ 53"
      using assms(3) e by simp_all
    have eq: "st' (module g) = prepare_layer (st (module g))" using e by (simp add: st')
    have "masked (st' (module g))" using wf(1) by (simp add: eq masked_prepare_layer)
    moreover have "length (data (weight (st' (module g)))) < 2 ^ 53"
      using wf by (simp add: eq prepare_layer_def wf_tensor_def)
    ultimately show ?thesis using assms(4) that by simp
  qed
  then have "\<forall>g \<in> set ?gs. masked (st' (module g)) \<and> 0 \<le> sparsity_level g
      \<and> sparsity_level g \<le> 1 \<and> length (data (weight (st' (module g)))) < 2 ^ 53"
    by blast
  from step_groups_masked [OF d this] obtain st'' where st'':
    "step_groups mean ?gs st' = Inr st''"
    "\<forall>g \<in> set ?gs. update_mask mean (sparsity_level g) (st' (module g)) = Inr (st'' (module g))"
    "\<forall>a. a \<notin> module ` set ?gs \<longrightarrow> st'' a = st' a"
    by blast
  have step: "step mean self' st' = Inr st''" using st''(1) by (simp add: step_def)
  have bare: "let s = sparsity_level (defaults self);
             n = numel (weight (st a));
             k = py_round (fl64 (s * of_nat n))
         in (\<exists>g \<in> set ?gs. module g = a
               \<and> sparsity_level g = s
               \<and> sparse_block_shape g = sparse_block_shape (defaults self)
               \<and> zeros_per_block g = zeros_per_block (defaults self))
            \<and> update_mask mean s (st' a) = Inr (st'' a)
            \<and> threshold_idx s n = Inr k
            \<and> (\<exists>m. parametrizations (st'' a) = Some m \<and> int (count_zero (data m)) = k)
            \<and> (0 \<notin> set (data (weight (st a))) \<longrightarrow>
                  int (count_zero (data (layer_weight (st'' a)))) = k)"
    if "Module a \<in> set c" for a
  proof -
    let ?g = "make_group (defaults self) (Module a)"
    let ?s = "sparsity_level (defaults self)"
    let ?w = "weight (st a)"
    let ?n = "length (data ?w)"
    let ?k = "py_round (fl64 (?s * of_nat ?n))"
    let ?idx = "zeroed_idx mean ?s ?w"
    have g: "?g \<in> set ?gs" using that unfolding gs set_map by (rule imageI)
    have ga: "module ?g = a" "sparsity_level ?g = ?s" by simp_all
    have ex: "\<exists>g \<in> set ?gs. module g = a \<and> sparsity_level g = ?s
        \<and> sparse_block_shape g = sparse_block_shape (defaults self)
        \<and> zeros_per_block g = zeros_per_block (defaults self)"
      using g by force
    have wf: "wf_tensor ?w" "numel ?w < 2 ^ 53" using assms(3) that by force+
    have n: "numel ?w = ?n" using wf(1) by (simp add: wf_tensor_def)
    have n53: "?n < 2 ^ 53" using wf(2) by (simp only: n)
    have s: "0 \<le> ?s" "?s \<le> 1" using assms(4) g ga(2) by force+
    have "a \<in> entry_module ` set c" using that by force
    then have eq: "st' a = prepare_layer (st a)" by (simp add: st')
    have w': "weight (st' a) = ?w" by (simp add: eq prepare_layer_def)
    have mk: "masked (st' a)" using wf(1) by (simp add: eq masked_prepare_layer)
    have u: "update_mask mean ?s (st' a) = Inr (st'' a)" using st''(2) g ga by force
    have thr: "threshold_idx ?s ?n = Inr ?k" by (rule threshold_idx_level(1) [OF s n53])
    have l2: "st'' a = (st' a)\<lparr>parametrizations :=
        Some \<lparr>shape = shape ?w, data = zero_at ?idx ?n\<rparr>\<rparr>"
      using update_mask_level [OF mk s] u n53 by (simp add: w')
    have cz: "int (count_zero (zero_at ?idx ?n)) = ?k"
      using count_zero_zero_at [OF set_zeroed_idx distinct_zeroed_idx, of mean ?s ?w]
        zeroed_idx_level(2) [OF s n53] by simp
    have m: "\<exists>m. parametrizations (st'' a) = Some m \<and> int (count_zero (data m)) = ?k"
      using cz by (simp add: l2)
    have lw: "data (layer_weight (st'' a)) = map2 (*) (zero_at ?idx ?n) (data ?w)"
      by (simp add: l2 layer_weight_def mul_mask_def w')
    have dense: "int (count_zero (data (layer_weight (st'' a)))) = ?k"
      if "0 \<notin> set (data ?w)"
      using count_zero_map2_eq [of "zero_at ?idx ?n" "data ?w"] cz that
      by (simp add: lw length_zero_at)
    show ?thesis unfolding Let_def n using ex u thr m dense by blast
  qed
  have frame: "st' a = st a \<and> st'' a = st a \<and> squash_mask self' st'' a = st a"
    if "a \<notin> entry_module ` set c" for a
  proof -
    have n: "a \<notin> module ` set ?gs" using that img by simp
    have 1: "st' a = st a" using that by (simp add: st')
    have 2: "st'' a = st a" using st''(3) n 1 by simp
    show ?thesis using 1 2 n by (simp add: squash_mask_at)
  qed
  show ?thesis using step bare frame by blast
qed

theorem default_group_reach_witness:
  "distinct (map entry_module example_config)
   \<and> Module 2 \<in> set example_config
   \<and> 3 \<notin> entry_module ` set example_config
   \<and> sparsity_level (defaults (ClosestToMeanSparsifier (1 / 2))) = 1 / 2
   \<and> (\<exists>st''. step mean_seq (fst (prepare (ClosestToMeanSparsifier (1 / 2)) example_model4
                   (Some example_config) example_store4))
                 (snd (prepare (ClosestToMeanSparsifier (1 / 2)) example_model4
                   (Some example_config) example_store4)) = Inr st''
          \<and> int (count_zero (data (layer_weight (st'' 2)))) = 2
          \<and> st'' 3 = example_store4 3)"
proof -
  let ?sp = "ClosestToMeanSparsifier (1 / 2)"
  let ?p = "prepare ?sp example_model4 (Some example_config) example_store4"
  have p: "?p = (fst ?p, snd ?p)" by simp
  have h2: "distinct (map entry_module example_config)" by code_simp
  have w: "weight (example_store4 a) = \<lparr>shape = [2, 2], data = [1, 2, 4, 8]\<rparr>" for a
    by (simp add: example_store4_def nn_Linear_def)
  have h3: "\<forall>e \<in> set example_config. wf_tensor (weight (example_store4 (entry_module e)))
      \<and> numel (weight (example_store4 (entry_module e))) < 2 ^ 53"
    by (simp add: w wf_tensor_def numel_def)
  have gs: "map sparsity_level (module_groups (fst ?p)) = [1 / 4, 3 / 4, 1 / 2]" by code_simp
  have "\<forall>x \<in> set (map sparsity_level (module_groups (fst ?p))). 0 \<le> x \<and> x \<le> 1"
    by (simp add: gs)
  then have h4: "\<forall>g \<in> set (module_groups (fst ?p)). 0 \<le> sparsity_level g \<and> sparsity_level g \<le> 1"
    by simp
  have b: "Module 2 \<in> set example_config" by code_simp
  have n: "3 \<notin> entry_module ` set example_config" by code_simp
  have d: "sparsity_level (defaults ?sp) = 1 / 2" by code_simp
  have z: "0 \<notin> set (data (weight (example_store4 2)))" by (simp add: w)
  have k: "py_round (fl64 (1 / 2 * of_nat (numel (weight (example_store4 2))))) = 2"
    by code_simp
  from default_group_reach [OF p h2 h3 h4] obtain st'' where
    1: "step mean_seq (fst ?p) (snd ?p) = Inr st''"
    and 2: "\<forall>a. Module a \<in> set example_config \<longrightarrow>
        (let s = sparsity_level (defaults ?sp);
             n = numel (weight (example_store4 a));
             k = py_round (fl64 (s * of_nat n))
         in (\<exists>g \<in> set (module_groups (fst ?p)). module g = a
               \<and> sparsity_level g = s
               \<and> sparse_block_shape g = sparse_block_shape (defaults ?sp)
               \<and> zeros_per_block g = zeros_per_block (defaults ?sp))
            \<and> update_mask mean_seq s (snd ?p a) = Inr (st'' a)
            \<and> threshold_idx s n = Inr k
            \<and> (\<exists>m. parametrizations (st'' a) = Some m \<and> int (count_zero (data m)) = k)
            \<and> (0 \<notin> set (data (weight (example_store4 a))) \<longrightarrow>
                  int (count_zero (data (layer_weight (st'' a)))) = k))"
    and 3: "\<forall>a. a \<notin> entry_module ` set example_config \<longrightarrow>
           snd ?p a = example_store4 a \<and> st'' a = example_store4 a
           \<and> squash_mask (fst ?p) st'' a = example_store4 a"
    by blast
  have "int (count_zero (data (layer_weight (st'' 2))))
      = py_round (fl64 (sparsity_level (defaults ?sp) * of_nat (numel (weight (example_store4 2)))))"
    using 2 b z unfolding Let_def by blast
  then have 4: "int (count_zero (data (layer_weight (st'' 2)))) = 2" by (simp only: d k)
  have 5: "st'' 3 = example_store4 3" using 3 n by blast
  show ?thesis using h2 b n d 1 4 5 by blast
qed

text \<open>
  C3: \<open>squash_mask\<close> multiplies the mask of every attached layer into the layer's weight
  and removes the parametrization: afterwards the layer has no \<open>parametrizations\<close>
  attribute, its weight is the elementwise product of the mask and the original weight,
  and its bias, \<open>in_features\<close> and \<open>out_features\<close> are unchanged.
\<close>

theorem squash_mask_effect:
  assumes "g \<in> set (module_groups self)"
    and "parametrizations (st (module g)) = Some m"
  shows "let l = st (module g); l' = squash_mask self st (module g)
         in parametrizations l' = None
            \<and> weight l' = mul_mask m (weight l)
            \<and> shape (weight l') = shape (weight l)
            \<and> (\<forall>i. i < length (data m) \<and> i < length (data (weight l)) \<longrightarrow>
                  data (weight l') ! i = data m ! i * data (weight l) ! i)
            \<and> bias l' = bias l
            \<and> in_features l' = in_features l
            \<and> out_features l' = out_features l"
  using assms by (simp add: squash_mask_at squash_layer_def mul_mask_def)

theorem squash_mask_effect_witness:
  "module_groups example_sparsifier = [example_group]
   \<and> parametrizations example_masked3 = Some \<lparr>shape = [1, 3], data = [0, 0, 1]\<rparr>
   \<and> parametrizations (squash_mask example_sparsifier (\<lambda>_. example_masked3) 0) = None
   \<and> weight (squash_mask example_sparsifier (\<lambda>_. example_masked3) 0)
       = \<lparr>shape = [1, 3], data = [0, 0, 4]\<rparr>
   \<and> bias (squash_mask example_sparsifier (\<lambda>_. example_masked3) 0) = [0]
   \<and> in_features (squash_mask example_sparsifier (\<lambda>_. example_masked3) 0) = 3
   \<and> out_features (squash_mask example_sparsifier (\<lambda>_. example_masked3) 0) = 1"
proof -
  have g: "module_groups example_sparsifier = [example_group]" by code_simp
  have h1: "example_group \<in> set (module_groups example_sparsifier)" by (simp add: g)
  have m: "module example_group = 0" by (simp add: example_group_def)
  have h2: "parametrizations ((\<lambda>_. example_masked3) (module example_group))
      = Some \<lparr>shape = [1, 3], data = [0, 0, 1]\<rparr>"
    by (simp add: example_masked3_def)
  have w: "mul_mask \<lparr>shape = [1, 3], data = [0, 0, 1]\<rparr> (weight example_masked3)
      = \<lparr>shape = [1, 3], data = [0, 0, 4]\<rparr>"
    by (simp add: mul_mask_def example_masked3_def nn_Linear_def)
  have f: "bias example_masked3 = [0]" "in_features example_masked3 = 3"
    "out_features example_masked3 = 1"
    by (simp_all add: example_masked3_def nn_Linear_def)
  show ?thesis
    using squash_mask_effect [OF h1 h2] g h2 w f by (simp add: Let_def m)
qed

text \<open>
  C4, as stated: after \<open>prepare\<close> and before the first step every layer's weight has zero
  observed sparsity. A weight that has zero entries of its own keeps them: with the
  weights 0, 2, 4 the mask is all-ones and the observed sparsity is 1/3.
\<close>

theorem zero_sparsity_counterexample:
  "parametrizations
      (snd (prepare (ClosestToMeanSparsifier (1 / 2)) example_model1 (Some [Module 0])
         example_store_zero) 0)
     = Some \<lparr>shape = [1, 3], data = [1, 1, 1]\<rparr>
   \<and> sparsity_levels example_model1
        (snd (prepare (ClosestToMeanSparsifier (1 / 2)) example_model1 (Some [Module 0])
           example_store_zero))
     = [1 / 3]"
  by code_simp

text \<open>
  C4, amended: after \<open>prepare\<close> and before the first step, the mask of every attached layer
  is all-ones, so the parametrization zeroes no entry: the layer's effective weight is its
  original weight, and its observed sparsity is that of the original weight, zero for a
  weight whose entries are all different from zero.
\<close>

theorem prepare_masks_all_ones:
  assumes "prepare self model config st = (self', st')"
    and "g \<in> set (module_groups self')"
    and "wf_tensor (weight (st (module g)))"
  shows "\<exists>m. parametrizations (st' (module g)) = Some m
           \<and> shape m = shape (weight (st (module g)))
           \<and> length (data m) = numel (weight (st (module g)))
           \<and> list_all (\<lambda>x. x = 1) (data m)
           \<and> layer_weight (st' (module g)) = weight (st (module g))
           \<and> sparsity_of (layer_weight (st' (module g))) = sparsity_of (weight (st (module g)))
           \<and> (0 \<notin> set (data (weight (st (module g)))) \<and> data (weight (st (module g))) \<noteq> []
                \<longrightarrow> sparsity_of (layer_weight (st' (module g))) = 0)"
proof -
  let ?l = "st (module g)"
  have "st' (module g) = prepare_layer ?l"
    using prepare_groups(2) [OF assms(1)] assms(2) by (simp add: attach_at)
  then show ?thesis
    using layer_weight_prepare_layer [OF assms(3)] sparsity_of_dense [of "weight ?l"]
    by (simp add: prepare_layer_def ones_like_def list_all_iff)
qed

theorem prepare_masks_all_ones_witness:
  "module_groups (fst (prepare (ClosestToMeanSparsifier (1 / 2)) example_model1 None example_store3))
     = [example_group]
   \<and> wf_tensor (weight (example_store3 0))
   \<and> parametrizations
        (snd (prepare (ClosestToMeanSparsifier (1 / 2)) example_model1 None example_store3) 0)
       = Some \<lparr>shape = [1, 3], data = [1, 1, 1]\<rparr>
   \<and> sparsity_of (layer_weight
        (snd (prepare (ClosestToMeanSparsifier (1 / 2)) example_model1 None example_store3) 0))
       = 0"
proof -
  let ?p = "prepare (ClosestToMeanSparsifier (1 / 2)) example_model1 None example_store3"
  have p: "?p = (fst ?p, snd ?p)" by simp
  have g: "module_groups (fst ?p) = [example_group]" by code_simp
  have h2: "example_group \<in> set (module_groups (fst ?p))" by (simp add: g)
  have m: "module example_group = 0" by (simp add: example_group_def)
  have h3: "wf_tensor (weight (example_store3 (module example_group)))"
    unfolding m by code_simp
  have d: "0 \<notin> set (data (weight (example_store3 0))) \<and> data (weight (example_store3 0)) \<noteq> []"
    by code_simp
  have q: "parametrizations (snd ?p 0) = Some \<lparr>shape = [1, 3], data = [1, 1, 1]\<rparr>" by code_simp
  from prepare_masks_all_ones [OF p h2 h3]
  have "sparsity_of (layer_weight (snd ?p 0)) = 0" using d unfolding m by blast
  then show ?thesis using g h3 q unfolding m by blast
qed

text \<open>
  C5: a mask has the shape of the weight it parametrizes and every entry is 0 or 1, and
  \<open>update_mask\<close> preserves this. Whenever \<open>update_mask\<close> returns, the new mask is a tensor
  of ones with the selected entries set to 0, in the old mask's shape, and the weight is
  untouched. On a layer whose mask has the shape of its weight it returns, unless the
  product of the level and the number of weights overflows the doubles, where Python's
  \<open>round\<close> raises; for a level in [0,1] and fewer than \<open>2^53\<close> weights it always returns.
  None of this depends on the value of the mean kernel.
\<close>

theorem update_mask_preserves_mask:
  "(masked l \<longrightarrow>
      (threshold_idx s (numel (weight l)) = Inl OverflowError
         \<and> update_mask mean s l = Inl OverflowError)
      \<or> (\<exists>l'. update_mask mean s l = Inr l' \<and> mask_invariant l'))
   \<and> (masked l \<and> 0 \<le> s \<and> s \<le> 1 \<and> numel (weight l) < 2 ^ 53 \<longrightarrow>
        (\<exists>l'. update_mask mean s l = Inr l' \<and> mask_invariant l'))
   \<and> (update_mask mean s l = Inr l' \<longrightarrow>
        (\<exists>m m'. parametrizations l = Some m \<and> parametrizations l' = Some m'
           \<and> shape m' = shape m
           \<and> data m' = zero_at (zeroed_idx mean s (weight l)) (numel m)
           \<and> binary_tensor m'
           \<and> weight l' = weight l))"
proof -
  have ret: "\<exists>l'. update_mask mean s l = Inr l' \<and> mask_invariant l'"
    if a: "masked l" and t: "threshold_idx s (length (data (weight l))) = Inr t" for t
  proof -
    from a obtain m where m: "parametrizations l = Some m" "shape m = shape (weight l)"
      "numel m = length (data (weight l))" by (rule masked_numel)
    let ?m' = "\<lparr>shape = shape (weight l),
          data = zero_at (zeroed_idx mean s (weight l)) (length (data (weight l)))\<rparr>"
    have "binary_tensor ?m'"
      using m by (simp add: binary_tensor_def wf_tensor_def numel_def length_zero_at zero_at_binary)
    then have "mask_invariant (l\<lparr>parametrizations := Some ?m'\<rparr>)"
      by (simp add: mask_invariant_def)
    then show ?thesis using update_mask_masked [OF a t] by simp
  qed
  have n: "numel (weight l) = length (data (weight l))" if "masked l"
    using that by (simp add: masked_def wf_tensor_def)
  have 1: "(threshold_idx s (numel (weight l)) = Inl OverflowError
         \<and> update_mask mean s l = Inl OverflowError)
      \<or> (\<exists>l'. update_mask mean s l = Inr l' \<and> mask_invariant l')" if a: "masked l"
  proof (cases "threshold_idx s (length (data (weight l)))")
    case (Inl e)
    then have "e = OverflowError" by (auto simp: threshold_idx_def Let_def split: if_splits)
    then show ?thesis using Inl update_mask_overflow [OF a Inl] n [OF a] by simp
  next
    case (Inr t)
    then show ?thesis using ret [OF a Inr] by blast
  qed
  have 2: "\<exists>l'. update_mask mean s l = Inr l' \<and> mask_invariant l'"
    if "masked l \<and> 0 \<le> s \<and> s \<le> 1 \<and> numel (weight l) < 2 ^ 53"
  proof -
    have "length (data (weight l)) < 2 ^ 53" using that n by simp
    then show ?thesis using ret threshold_idx_level(1) that by blast
  qed
  have 3: "\<exists>m m'. parametrizations l = Some m \<and> parametrizations l' = Some m'
           \<and> shape m' = shape m
           \<and> data m' = zero_at (zeroed_idx mean s (weight l)) (numel m)
           \<and> binary_tensor m'
           \<and> weight l' = weight l" if u: "update_mask mean s l = Inr l'"
  proof -
    from u obtain m where m: "parametrizations l = Some m"
      by (auto simp: update_mask_def split: option.splits)
    let ?m' = "\<lparr>shape = shape m, data = zero_at (zeroed_idx mean s (weight l)) (numel m)\<rparr>"
    have l': "l' = l\<lparr>parametrizations := Some ?m'\<rparr>"
      using u update_mask_eq [OF m, of mean s] by (auto split: sum.splits if_splits)
    have "binary_tensor ?m'"
      by (simp add: binary_tensor_def wf_tensor_def numel_def length_zero_at zero_at_binary)
    then show ?thesis using m l' by simp
  qed
  show ?thesis using 1 2 3 by blast
qed

theorem update_mask_preserves_mask_witness:
  "masked example_prepared3
   \<and> update_mask mean_seq (1 / 2) example_prepared3 = Inr example_masked3
   \<and> (\<exists>l'. update_mask mean_seq (1 / 2) example_prepared3 = Inr l' \<and> mask_invariant l')
   \<and> (\<exists>m m'. parametrizations example_prepared3 = Some m
          \<and> parametrizations example_masked3 = Some m'
          \<and> shape m' = shape m
          \<and> data m' = zero_at (zeroed_idx mean_seq (1 / 2) (weight example_prepared3)) (numel m)
          \<and> binary_tensor m'
          \<and> weight example_masked3 = weight example_prepared3)"
proof -
  have h: "masked example_prepared3" by code_simp
  have u: "update_mask mean_seq (1 / 2) example_prepared3 = Inr example_masked3" by code_simp
  have b: "(0::rat) \<le> 1 / 2 \<and> (1 / 2 :: rat) \<le> 1" by simp
  have n: "numel (weight example_prepared3) < 2 ^ 53"
    by (simp add: example_prepared3_def prepare_layer_def nn_Linear_def numel_def)
  show ?thesis
    using update_mask_preserves_mask [of example_prepared3 "1 / 2" mean_seq example_masked3] h u b n
    by blast
qed

text \<open>
  C6: the schedule functions keep the effective sparsity level between 0 and the target.
  For an epoch that is not negative \<open>stepping_lambda\<close> returns a factor in [0,1]: 0 at
  epoch 0, 1/2 at epoch 1, 3/4 at epoch 2 and 1 from epoch 3 on, so that the factor times
  a target that is not negative lies between 0 and the target. Every list that
  \<open>OnOffSchedulerSL.get_sl\<close> returns has one entry for each base level, and each entry is
  0 or the base level at its position.
\<close>

theorem schedule_levels_bounded:
  "(0 \<le> epoch \<longrightarrow>
      (\<exists>f. stepping_lambda epoch = Inr f \<and> 0 \<le> f \<and> f \<le> 1
         \<and> f = (if epoch = 0 then 0 else if epoch = 1 then 1 / 2
                else if epoch = 2 then 3 / 4 else 1)
         \<and> (\<forall>t. 0 \<le> t \<longrightarrow> 0 \<le> f * t \<and> f * t \<le> t)))
   \<and> (get_sl self = Inr sl \<longrightarrow>
        length sl = length (base_sl self)
        \<and> (\<forall>i < length sl. sl ! i = 0 \<or> sl ! i = base_sl self ! i)
        \<and> (\<forall>i < length sl. 0 \<le> base_sl self ! i \<longrightarrow> 0 \<le> sl ! i \<and> sl ! i \<le> base_sl self ! i))"
proof (rule conjI; rule impI)
  assume e: "0 \<le> epoch"
  let ?f = "if epoch = 0 then 0 else if epoch = 1 then 1 / 2
            else if epoch = 2 then 3 / 4 else (1::rat)"
  have f: "0 \<le> ?f" "?f \<le> 1" by simp_all
  have "0 \<le> ?f * t \<and> ?f * t \<le> t" if "0 \<le> t" for t
    using that f mult_right_mono [of ?f 1 t] by (simp del: if_distrib)
  then show "\<exists>f. stepping_lambda epoch = Inr f \<and> 0 \<le> f \<and> f \<le> 1
         \<and> f = (if epoch = 0 then 0 else if epoch = 1 then 1 / 2
                else if epoch = 2 then 3 / 4 else 1)
         \<and> (\<forall>t. 0 \<le> t \<longrightarrow> 0 \<le> f * t \<and> f * t \<le> t)"
    using stepping_lambda_cases [OF e] f by blast
next
  assume g: "get_sl self = Inr sl"
  then have "sl = replicate (length (base_sl self)) 0 \<or> sl = base_sl self"
    by (auto simp: get_sl_def split: sum.splits if_splits)
  then show "length sl = length (base_sl self)
        \<and> (\<forall>i < length sl. sl ! i = 0 \<or> sl ! i = base_sl self ! i)
        \<and> (\<forall>i < length sl. 0 \<le> base_sl self ! i \<longrightarrow> 0 \<le> sl ! i \<and> sl ! i \<le> base_sl self ! i)"
    by auto
qed

theorem schedule_levels_bounded_witness:
  "(0::int) \<le> 2
   \<and> stepping_lambda 2 = Inr (3 / 4)
   \<and> (\<exists>f. stepping_lambda 2 = Inr f \<and> 0 \<le> f \<and> f \<le> 1)
   \<and> get_sl example_scheduler = Inr [4 / 5]
   \<and> length [4 / 5 :: rat] = length (base_sl example_scheduler)"
proof -
  have e: "(0::int) \<le> 2" by simp
  have s: "stepping_lambda 2 = Inr (3 / 4)" by code_simp
  have g: "get_sl example_scheduler = Inr [4 / 5]" by code_simp
  note t = schedule_levels_bounded [of 2 example_scheduler "[4 / 5]"]
  have 1: "\<exists>f. stepping_lambda 2 = Inr f \<and> 0 \<le> f \<and> f \<le> 1"
    using t e by blast
  have 2: "length [4 / 5 :: rat] = length (base_sl example_scheduler)"
    using t g by blast
  show ?thesis using e s g 1 2 by blast
qed

text \<open>
  C7: \<open>prepare(model, config)\<close> changes the model's layers in place. The layer object at
  every configured address now carries a weight parametrization with an all-ones mask,
  and keeps its \<open>in_features\<close>, \<open>out_features\<close>, original weight and bias; a layer that had
  no parametrization is no longer what it was. Nothing else in the store changes, so a
  deep copy of the model, whose layers live at other addresses, keeps the unparametrized
  layers. The model itself, a tree of layer addresses, is not rebuilt.
\<close>

theorem prepare_in_place:
  assumes "prepare self model config st = (self', st')"
  shows "(\<forall>a \<in> set (configured model config).
            parametrizations (st' a) = Some (ones_like (weight (st a)))
            \<and> in_features (st' a) = in_features (st a)
            \<and> out_features (st' a) = out_features (st a)
            \<and> weight (st' a) = weight (st a)
            \<and> bias (st' a) = bias (st a)
            \<and> (parametrizations (st a) = None \<longrightarrow> st' a \<noteq> st a))
       \<and> (\<forall>a. a \<notin> set (configured model config) \<longrightarrow> st' a = st a)"
proof -
  have m: "module ` set (module_groups self') = set (configured model config)"
    using prepare_groups(1) [OF assms] by (metis set_map)
  have st': "st' a = (if a \<in> set (configured model config) then prepare_layer (st a) else st a)"
    for a
    using prepare_groups(2) [OF assms] m by (simp add: attach_at)
  have "parametrizations (st a) = None \<Longrightarrow> prepare_layer (st a) \<noteq> st a" for a
    by (metis (no_types) option.distinct(1) prepare_layer_def layer.select_convs(5)
        layer.surjective layer.update_convs(5))
  then show ?thesis
    by (simp add: st') (simp add: prepare_layer_def)
qed

theorem prepare_in_place_witness:
  "configured example_model4 (Some example_config) = [0, 1, 2]
   \<and> parametrizations (example_store4 0) = None
   \<and> parametrizations
        (snd (prepare (ClosestToMeanSparsifier (1 / 2)) example_model4 (Some example_config)
           example_store4) 0)
       = Some \<lparr>shape = [2, 2], data = [1, 1, 1, 1]\<rparr>
   \<and> snd (prepare (ClosestToMeanSparsifier (1 / 2)) example_model4 (Some example_config)
        example_store4) 0 \<noteq> example_store4 0
   \<and> snd (prepare (ClosestToMeanSparsifier (1 / 2)) example_model4 (Some example_config)
        example_store4) 3 = example_store4 3"
proof -
  let ?p = "prepare (ClosestToMeanSparsifier (1 / 2)) example_model4 (Some example_config)
      example_store4"
  have p: "?p = (fst ?p, snd ?p)" by simp
  have c: "configured example_model4 (Some example_config) = [0, 1, 2]" by code_simp
  have i: "0 \<in> set (configured example_model4 (Some example_config))"
    and n: "3 \<notin> set (configured example_model4 (Some example_config))"
    by (simp_all add: c)
  have u: "parametrizations (example_store4 0) = None" by code_simp
  have o: "ones_like (weight (example_store4 0)) = \<lparr>shape = [2, 2], data = [1, 1, 1, 1]\<rparr>"
    by code_simp
  note t = prepare_in_place [OF p]
  have 1: "parametrizations (snd ?p 0) = Some (ones_like (weight (example_store4 0)))"
    using t i by blast
  have 2: "snd ?p 0 \<noteq> example_store4 0" using t i u by blast
  have 3: "snd ?p 3 = example_store4 3" using t n by blast
  show ?thesis using c u 1 2 3 unfolding o by blast
qed

text \<open>
  C8, as stated: the zeroed positions are those whose weights are closest to the mean of
  the original weight. The code ranks the float32 distances to the float32 mean. For the
  weights 0, 2 and \<open>1 + 2^-23\<close> the float32 sum is 3 in whatever order it is added up, the
  float32 mean is 1, and the positions 0 and 1 are both at distance 1; at level 1/2 the
  code zeroes the positions 2 and 0, although the weight at position 1 is closer to the
  exact mean than the weight at position 0.
\<close>

theorem closest_to_mean_counterexample:
  "update_mask mean_seq (1 / 2) example_tie3
     = Inr (example_tie3\<lparr>parametrizations := Some \<lparr>shape = [1, 3], data = [0, 1, 0]\<rparr>\<rparr>)
   \<and> exact_distance_to_mean (flatten (weight example_tie3)) ! 1
       < exact_distance_to_mean (flatten (weight example_tie3)) ! 0
   \<and> distance_to_mean mean_seq (flatten (weight example_tie3)) = [Fin 1, Fin 1, Fin (1 / 2 ^ 23)]"
  by code_simp

text \<open>
  C8, amended: for a layer whose mask has the shape of its \<open>n\<close>-element weight,
  \<open>n < 2^53\<close>, and a sparsity level \<open>s\<close> in [0,1], \<open>update_mask\<close> returns, the new mask is
  zero at exactly \<open>int(round(s * n))\<close> positions, the product being the product of doubles
  that Python computes, and one at every other position; the zeroed positions are those
  closest to the mean as the code computes it: the float32 distance to the float32 mean
  at a zeroed position is at most the one at any position that is kept. The mean is the
  value \<open>mean\<close> of torch's kernel on the flattened weight, whatever it is.
\<close>

theorem update_mask_closest_to_mean:
  assumes "masked l" "0 \<le> s" "s \<le> 1" "numel (weight l) < 2 ^ 53"
  shows "\<exists>m'. update_mask mean s l = Inr (l\<lparr>parametrizations := Some m'\<rparr>) \<and>
     (let n = numel (weight l);
          d = distance_to_mean mean (flatten (weight l));
          zs = filter (\<lambda>i. data m' ! i = 0) [0..<n]
      in length (data m') = n
         \<and> threshold_idx s n = Inr (int (length zs))
         \<and> int (length zs) = py_round (fl64 (s * of_nat n))
         \<and> (\<forall>j<n. j \<notin> set zs \<longrightarrow> data m' ! j = 1)
         \<and> (\<forall>i \<in> set zs. \<forall>j<n. j \<notin> set zs \<longrightarrow> f32_le (d ! i) (d ! j)))"
proof -
  let ?w = "weight l"
  let ?n = "length (data ?w)"
  let ?idx = "zeroed_idx mean s ?w"
  let ?m' = "\<lparr>shape = shape ?w, data = zero_at ?idx ?n\<rparr>"
  let ?zs = "filter (\<lambda>i. zero_at ?idx ?n ! i = 0) [0..<?n]"
  have n: "numel ?w = ?n" using assms(1) by (simp add: masked_def wf_tensor_def)
  have n53: "?n < 2 ^ 53" using assms(4) by (simp only: n)
  have u: "update_mask mean s l = Inr (l\<lparr>parametrizations := Some ?m'\<rparr>)"
    by (rule update_mask_level [OF assms(1,2,3) n53])
  have zs: "set ?zs = set ?idx" "length ?zs = length ?idx"
    using filter_zero_at [OF set_zeroed_idx distinct_zeroed_idx, of mean s ?w] by simp_all
  have a: "length (data ?m') = ?n" by (simp add: length_zero_at)
  have b: "int (length ?zs) = py_round (fl64 (s * of_nat ?n))"
    using zs(2) zeroed_idx_level(2) [OF assms(2,3) n53] by simp
  have t: "threshold_idx s ?n = Inr (int (length ?zs))"
    using threshold_idx_level(1) [OF assms(2,3) n53] by (simp only: b)
  have c: "\<forall>j<?n. j \<notin> set ?zs \<longrightarrow> data ?m' ! j = 1"
    using zs(1) by (simp add: zero_at_nth)
  have d: "\<forall>i \<in> set ?zs. \<forall>j<?n. j \<notin> set ?zs \<longrightarrow>
      f32_le (distance_to_mean mean (data ?w) ! i) (distance_to_mean mean (data ?w) ! j)"
    using zeroed_idx_closest [of _ mean s ?w] zs(1) by blast
  have "let n = numel ?w; d = distance_to_mean mean (flatten ?w);
          zs = filter (\<lambda>i. data ?m' ! i = 0) [0..<n]
      in length (data ?m') = n
         \<and> threshold_idx s n = Inr (int (length zs))
         \<and> int (length zs) = py_round (fl64 (s * of_nat n))
         \<and> (\<forall>j<n. j \<notin> set zs \<longrightarrow> data ?m' ! j = 1)
         \<and> (\<forall>i \<in> set zs. \<forall>j<n. j \<notin> set zs \<longrightarrow> f32_le (d ! i) (d ! j))"
    unfolding Let_def n flatten_def using a b t c d by simp
  with u show ?thesis by blast
qed

theorem update_mask_closest_to_mean_witness:
  "masked example_prepared3 \<and> (0::rat) \<le> 1 / 2 \<and> (1 / 2 :: rat) \<le> 1
   \<and> update_mask mean_seq (1 / 2) example_prepared3 = Inr example_masked3
   \<and> threshold_idx (1 / 2) 3 = Inr 2
   \<and> (\<exists>m'. update_mask mean_seq (1 / 2) example_prepared3
              = Inr (example_prepared3\<lparr>parametrizations := Some m'\<rparr>)
          \<and> length (data m') = numel (weight example_prepared3)
          \<and> int (length (filter (\<lambda>i. data m' ! i = 0) [0..<numel (weight example_prepared3)]))
              = py_round (fl64 (1 / 2 * of_nat (numel (weight example_prepared3)))))"
proof -
  have h1: "masked example_prepared3" by code_simp
  have h2: "(0::rat) \<le> 1 / 2" and h3: "(1 / 2 :: rat) \<le> 1" by simp_all
  have h4: "numel (weight example_prepared3) < 2 ^ 53"
    by (simp add: example_prepared3_def prepare_layer_def nn_Linear_def numel_def)
  have u: "update_mask mean_seq (1 / 2) example_prepared3 = Inr example_masked3" by code_simp
  have r: "threshold_idx (1 / 2) 3 = Inr 2" by code_simp
  have "\<exists>m'. update_mask mean_seq (1 / 2) example_prepared3
              = Inr (example_prepared3\<lparr>parametrizations := Some m'\<rparr>)
          \<and> length (data m') = numel (weight example_prepared3)
          \<and> int (length (filter (\<lambda>i. data m' ! i = 0) [0..<numel (weight example_prepared3)]))
              = py_round (fl64 (1 / 2 * of_nat (numel (weight example_prepared3))))"
    using update_mask_closest_to_mean [OF h1 h2 h3 h4] unfolding Let_def by blast
  then show ?thesis using h1 h2 h3 u r by blast
qed

text \<open>
  C9: \<open>update_mask\<close> is idempotent. It computes the mask from the original weight, which
  it does not change, so a second call on the layer the first call returned, with the
  same sparsity level, returns that layer again, with the same mask. The first call
  returns on every layer whose mask has the shape of its weight, for a level in [0,1] and
  fewer than \<open>2^53\<close> weights; it raises \<open>OverflowError\<close> only when the product of the level
  and the number of weights overflows the doubles. The mean kernel is a function of the
  weight, so both calls get the same mean.
\<close>

theorem update_mask_idempotent:
  "(update_mask mean s l = Inr l' \<longrightarrow> update_mask mean s l' = Inr l')
   \<and> (masked l \<and> 0 \<le> s \<and> s \<le> 1 \<and> numel (weight l) < 2 ^ 53 \<longrightarrow>
        (\<exists>l'. update_mask mean s l = Inr l' \<and> update_mask mean s l' = Inr l'))
   \<and> (masked l \<longrightarrow>
        (threshold_idx s (numel (weight l)) = Inl OverflowError
           \<and> update_mask mean s l = Inl OverflowError)
        \<or> (\<exists>l'. update_mask mean s l = Inr l' \<and> update_mask mean s l' = Inr l'))"
proof -
  have n: "numel (weight l) = length (data (weight l))" if "masked l"
    using that by (simp add: masked_def wf_tensor_def)
  have 1: "update_mask mean s l' = Inr l'" if "update_mask mean s l = Inr l'"
    using that by (rule update_mask_again)
  have 2: "\<exists>l'. update_mask mean s l = Inr l' \<and> update_mask mean s l' = Inr l'"
    if "masked l \<and> 0 \<le> s \<and> s \<le> 1 \<and> numel (weight l) < 2 ^ 53"
  proof -
    have m: "masked l" and s0: "0 \<le> s" and s1: "s \<le> 1" using that by simp_all
    have "length (data (weight l)) < 2 ^ 53" using that n by simp
    from update_mask_level [OF m s0 s1 this]
    obtain l1 where "update_mask mean s l = Inr l1" by blast
    then show ?thesis using update_mask_again by blast
  qed
  have 3: "(threshold_idx s (numel (weight l)) = Inl OverflowError
           \<and> update_mask mean s l = Inl OverflowError)
        \<or> (\<exists>l'. update_mask mean s l = Inr l' \<and> update_mask mean s l' = Inr l')" if a: "masked l"
  proof (cases "threshold_idx s (length (data (weight l)))")
    case (Inl e)
    then have "e = OverflowError" by (auto simp: threshold_idx_def Let_def split: if_splits)
    then show ?thesis using Inl update_mask_overflow [OF a Inl] n [OF a] by simp
  next
    case (Inr t)
    then obtain l1 where "update_mask mean s l = Inr l1" using update_mask_masked [OF a Inr] by blast
    then show ?thesis using update_mask_again by blast
  qed
  show ?thesis using 1 2 3 by blast
qed

theorem update_mask_idempotent_witness:
  "masked example_prepared3
   \<and> update_mask mean_seq (1 / 2) example_prepared3 = Inr example_masked3
   \<and> update_mask mean_seq (1 / 2) example_masked3 = Inr example_masked3"
proof -
  have h: "masked example_prepared3" by code_simp
  have u: "update_mask mean_seq (1 / 2) example_prepared3 = Inr example_masked3" by code_simp
  have "update_mask mean_seq (1 / 2) example_masked3 = Inr example_masked3"
    using update_mask_idempotent [of mean_seq "1 / 2" example_prepared3 example_masked3] u by blast
  then show ?thesis using h u by blast
qed

text \<open>
  C10: \<open>get_sl\<close> reads \<open>epoch_points\<close> at the positions 0, 1 and 2 without a check of its
  length. When \<open>epoch_points\<close> has at least three elements each of these accesses is in
  range, one of the four branches is taken, and \<open>get_sl\<close> returns a list as long as
  \<open>base_sl\<close>: zeros or \<open>base_sl\<close> itself.
\<close>

theorem get_sl_total:
  assumes "3 \<le> length (epoch_points self)"
  shows "(\<exists>e0 e1 e2. py_get (epoch_points self) 0 = Inr e0
            \<and> py_get (epoch_points self) 1 = Inr e1
            \<and> py_get (epoch_points self) 2 = Inr e2)
         \<and> (\<exists>sl. get_sl self = Inr sl \<and> length sl = length (base_sl self)
               \<and> (sl = replicate (length (base_sl self)) 0 \<or> sl = base_sl self))"
proof -
  have l: "0 < length (epoch_points self)" "1 < length (epoch_points self)"
    "2 < length (epoch_points self)" using assms by auto
  show ?thesis
    by (simp add: get_sl_def chained_def py_get_0 [OF l(1)] py_get_1 [OF l(2)] py_get_2 [OF l(3)])
qed

theorem get_sl_total_witness:
  "3 \<le> length (epoch_points example_scheduler)
   \<and> get_sl example_scheduler = Inr [4 / 5]
   \<and> (\<exists>sl. get_sl example_scheduler = Inr sl \<and> length sl = length (base_sl example_scheduler)
         \<and> (sl = replicate (length (base_sl example_scheduler)) 0
              \<or> sl = base_sl example_scheduler))"
proof -
  have h: "3 \<le> length (epoch_points example_scheduler)" by code_simp
  have g: "get_sl example_scheduler = Inr [4 / 5]" by code_simp
  show ?thesis using get_sl_total [OF h] h g by blast
qed

lemma get_sl_too_short:
  "get_sl \<lparr>epoch_points = [3], last_epoch = 5, base_sl = [4 / 5]\<rparr> = Inl IndexError"
  by code_simp

text \<open>
  The error branches are real: with a single epoch point \<open>get_sl\<close> raises \<open>IndexError\<close> once
  the second point is needed (above), and at the level \<open>2^1023\<close> on two weights the
  product overflows and \<open>update_mask\<close> raises \<open>OverflowError\<close>.
\<close>

lemma update_mask_overflow_example:
  "update_mask mean_seq 89884656743115795386465259539451236680898848947115328636715040578866337902750481566354238661203768010560056939935696678829394884407208311246423715319737062188883946712432742638151109800623047059726541476042502884419075341171231440736956555270413618581675255342293149119973622969239858152417678164812112068608 (prepare_layer (nn_Linear 2 1 [1, 2] [0])) = Inl OverflowError"
  by code_simp

end
